theory Spec2Isabelle
  imports Main
begin

section \<open>Chunked CSV ingestion: the loaders of ingest\_data.py and zones\_data.py\<close>

text \<open>
  Both scripts are straight-line compositions of two library calls: pandas'
  \<^verbatim>\<open>read_csv\<close> and \<^verbatim>\<open>DataFrame.to_sql\<close>. The functions of the
  repository (\<open>ingest_data\<close>, \<open>run\<close>) are translated statement by statement; the
  library calls they make are given by the small executable models below, which follow
  the behaviour of pandas' C parser and of its SQL writer for the arguments the scripts
  pass. The database is modelled as reachable: it holds named tables and accepts every
  well-formed statement. Progress messages (\<^verbatim>\<open>print\<close>, \<^verbatim>\<open>tqdm\<close>) do not
  influence the data and are left out.
\<close>

subsection \<open>Exceptions\<close>

text \<open>
  Every exception the two scripts can meet is a value. None of them is caught in the
  source, so each one ends the run where it is raised.
  \<^item> \<open>ValueError_chunksize\<close>: \<^verbatim>\<open>'chunksize' must be an integer >=1\<close>;
  \<^item> \<open>OpenError\<close>: the location cannot be opened (\<^verbatim>\<open>URLError\<close>, \<^verbatim>\<open>HTTPError\<close>,
    \<^verbatim>\<open>FileNotFoundError\<close>);
  \<^item> \<open>EmptyDataError\<close>: \<^verbatim>\<open>No columns to parse from file\<close>;
  \<^item> \<open>ValueError_parse_dates\<close>: \<^verbatim>\<open>Missing column provided to 'parse_dates'\<close>;
  \<^item> \<open>ParserError\<close>: a line with more fields than the reader expects;
  \<^item> \<open>ConversionError\<close>: a field that cannot be converted to the declared dtype
    (\<^verbatim>\<open>ValueError\<close> or \<^verbatim>\<open>TypeError\<close>, depending on the dtype);
  \<^item> \<open>StopIteration\<close>: the chunk iterator is exhausted;
  \<^item> \<open>DuplicateColumnError\<close>: the label of the index column is also a data column;
  \<^item> \<open>ProgrammingError\<close>: the database rejects a statement.
\<close>

datatype py_error =
    ValueError_chunksize
  | OpenError
  | EmptyDataError
  | ValueError_parse_dates
  | ParserError
  | ConversionError
  | StopIteration
  | DuplicateColumnError
  | ProgrammingError

text \<open>
  The error kinds of the specification (its section 7), and the kind each exception
  belongs to: a bad parameter, an unreachable or malformed source, a coercion failure
  during the read or the table creation, a failure at insert time. \<open>StopIteration\<close> is
  the iterator protocol, not an error kind.
\<close>

datatype error_kind =
    InvalidConfiguration
  | SourceUnavailable
  | SchemaMismatch
  | ConnectionFailure
  | ConstraintViolation

fun error_kind_of :: "py_error \<Rightarrow> error_kind option" where
  "error_kind_of ValueError_chunksize = Some InvalidConfiguration"
| "error_kind_of OpenError = Some SourceUnavailable"
| "error_kind_of EmptyDataError = Some SourceUnavailable"
| "error_kind_of ParserError = Some SourceUnavailable"
| "error_kind_of ValueError_parse_dates = Some SchemaMismatch"
| "error_kind_of ConversionError = Some SchemaMismatch"
| "error_kind_of DuplicateColumnError = Some SchemaMismatch"
| "error_kind_of ProgrammingError = Some ConstraintViolation"
| "error_kind_of StopIteration = None"

subsection \<open>The declared schema\<close>

datatype dtype = Int64 | float64 | string_dtype

definition DTYPE :: "(string \<times> dtype) list" where
  "DTYPE =
    [(''VendorID'', Int64),
     (''passenger_count'', Int64),
     (''trip_distance'', float64),
     (''RatecodeID'', Int64),
     (''store_and_fwd_flag'', string_dtype),
     (''PULocationID'', Int64),
     (''DOLocationID'', Int64),
     (''payment_type'', Int64),
     (''fare_amount'', float64),
     (''extra'', float64),
     (''mta_tax'', float64),
     (''tip_amount'', float64),
     (''tolls_amount'', float64),
     (''improvement_surcharge'', float64),
     (''total_amount'', float64),
     (''congestion_surcharge'', float64)]"

definition PARSE_DATES :: "string list" where
  "PARSE_DATES = [''tpep_pickup_datetime'', ''tpep_dropoff_datetime'']"

subsection \<open>The CSV source\<close>

text \<open>
  Which literals the converter of a numeric dtype accepts is decided inside pandas, and
  is not modelled. A field of the source is therefore its text together with the verdicts
  of the two numeric converters on that text: \<open>as_Int64\<close> says whether the converter of
  the nullable integer type accepts it, \<open>as_float64\<close> whether the one of the
  floating-point type does.
\<close>

record csv_field =
  ftext :: string
  as_Int64 :: bool
  as_float64 :: bool

text \<open>
  A source is what the tokenizer sees: the column labels of the header line and the data
  lines, each a list of fields, in file order. A location either serves a source or
  cannot be opened. The reader renames a label of the header line that is blank or that
  repeats an earlier one; this renaming is not modelled, and \<open>header\<close> holds the labels
  as the reader uses them. Where a statement speaks of the labels of the header line
  itself, it asks for them to be distinct and not blank.
\<close>

record csv =
  header :: "string list"
  lines :: "csv_field list list"

type_synonym world = "string \<Rightarrow> csv option"

text \<open>
  The strings \<^verbatim>\<open>read_csv\<close> takes for a missing value (its default
  \<^verbatim>\<open>na_values\<close>, with \<^verbatim>\<open>na_filter\<close> on): they are accepted in every
  column, whatever its declared dtype, before any converter sees them.
\<close>

definition STR_NA_VALUES :: "string list" where
  "STR_NA_VALUES =
    ['''', ''#N/A'', ''#N/A N/A'', ''#NA'', ''-1.#IND'', ''-1.#QNAN'', ''-NaN'', ''-nan'',
     ''1.#IND'', ''1.#QNAN'', ''<NA>'', ''N/A'', ''NA'', ''NULL'', ''NaN'', ''None'',
     ''n/a'', ''nan'', ''null'']"

definition is_na :: "string \<Rightarrow> bool" where
  "is_na s = (s \<in> set STR_NA_VALUES)"

text \<open>
  Whether a field converts to the dtype declared for its column. A column without a
  declared numeric dtype (the text column, the timestamp columns and any column outside
  \<open>DTYPE\<close>) takes every field.
\<close>

definition convertible :: "dtype option \<Rightarrow> csv_field \<Rightarrow> bool" where
  "convertible d fld =
    (is_na (ftext fld) \<or>
     (case d of
        Some Int64 \<Rightarrow> as_Int64 fld
      | Some float64 \<Rightarrow> as_float64 fld
      | Some string_dtype \<Rightarrow> True
      | None \<Rightarrow> True))"

text \<open>
  The header names the last columns of the file. When the first data line has \<open>k\<close>
  fields more than the header has labels, the reader takes the first \<open>k\<close> fields of
  every line as the index of the frame (\<open>leading_cols\<close>), and expects that many fields
  more on every line.
\<close>

definition leading_cols :: "csv \<Rightarrow> nat" where
  "leading_cols f = (case lines f of [] \<Rightarrow> 0 | l # ls \<Rightarrow> length l - length (header f))"

subsection \<open>Frames\<close>

text \<open>
  A parsed value is represented by the literal it was read from; \<open>NA\<close> is the missing
  value, \<open>Pos i\<close> the value of the automatically generated row index (a row position).
  A frame has its columns, the number of levels of its index, and for every row the
  values of the index and the values of the columns.
\<close>

datatype cell = NA | Lit string | Pos nat

record DataFrame =
  df_columns :: "string list"
  df_nlevels :: nat
  df_index :: "cell list list"
  df_rows :: "cell list list"

definition head :: "nat \<Rightarrow> DataFrame \<Rightarrow> DataFrame" where
  "head n df = df\<lparr>df_index := take n (df_index df), df_rows := take n (df_rows df)\<rparr>"

definition to_cell :: "csv_field \<Rightarrow> cell" where
  "to_cell fld = (if is_na (ftext fld) then NA else Lit (ftext fld))"

text \<open>A line with fewer fields than expected is filled up at its end with missing fields.\<close>

definition blank :: csv_field where
  "blank = \<lparr>ftext = [], as_Int64 = False, as_float64 = False\<rparr>"

definition pad :: "nat \<Rightarrow> csv_field list \<Rightarrow> csv_field list" where
  "pad n flds = flds @ replicate (n - length flds) blank"

definition parse_line :: "nat \<Rightarrow> csv_field list \<Rightarrow> cell list" where
  "parse_line width flds = map to_cell (pad width flds)"

text \<open>
  The declared dtypes are looked up by label; the labels belong to the fields after the
  \<open>k\<close> leading ones.
\<close>

definition fields_convert ::
  "(string \<times> dtype) list \<Rightarrow> string list \<Rightarrow> nat \<Rightarrow> csv_field list \<Rightarrow> bool" where
  "fields_convert dt names k flds =
    list_all (\<lambda>(c, fld). convertible (map_of dt c) fld)
      (zip names (drop k (pad (k + length names) flds)))"

text \<open>
  Reading a block of lines: the tokenizer rejects a line with more fields than expected,
  then the columns are converted, and the first failure raises; nothing of the block is
  returned then.
\<close>

definition parse_chunk ::
  "(string \<times> dtype) list \<Rightarrow> string list \<Rightarrow> nat \<Rightarrow> csv_field list list \<Rightarrow> py_error + cell list list" where
  "parse_chunk dt names k raw =
    (if list_ex (\<lambda>flds. k + length names < length flds) raw then Inl ParserError
     else if list_ex (\<lambda>flds. \<not> fields_convert dt names k flds) raw then Inl ConversionError
     else Inr (map (parse_line (k + length names)) raw))"

text \<open>
  The frame of a block of parsed lines that starts at line \<open>start\<close>. Without leading
  fields the index is generated: the positions of the lines, in one level. With \<open>k\<close>
  leading fields the index of a row is these \<open>k\<close> values, and the columns are the rest.
\<close>

definition nlevels :: "nat \<Rightarrow> nat" where
  "nlevels k = (if k = 0 then 1 else k)"

definition chunk_frame :: "string list \<Rightarrow> nat \<Rightarrow> nat \<Rightarrow> cell list list \<Rightarrow> DataFrame" where
  "chunk_frame ns k start cells =
    \<lparr>df_columns = ns,
     df_nlevels = nlevels k,
     df_index = (if k = 0 then map (\<lambda>i. [Pos i]) [start ..< start + length cells]
                 else map (take k) cells),
     df_rows = map (drop k) cells\<rparr>"

subsection \<open>The chunk iterator\<close>

text \<open>
  \<^verbatim>\<open>read_csv(..., iterator=True, chunksize=n)\<close> returns a \<^verbatim>\<open>TextFileReader\<close>:
  the number of leading fields, the lines not yet read, the position of the next line
  (\<open>currow\<close>, which numbers the generated index across chunks), the chunk size and the
  flag \<open>first_chunk\<close>.
\<close>

record TextFileReader =
  names :: "string list"
  dtypes :: "(string \<times> dtype) list"
  leading :: nat
  pending :: "csv_field list list"
  currow :: nat
  chunksize :: nat
  first_chunk :: bool

text \<open>
  \<^verbatim>\<open>read_csv\<close> as \<open>ingest_data\<close> calls it. The chunk size is validated before the
  source is opened; opening reads the header, which must have columns and must hold the
  columns named in \<^verbatim>\<open>parse_dates\<close>, and looks at the first data line for leading
  fields. No data line is converted yet.
\<close>

definition read_csv_iter ::
  "world \<Rightarrow> string \<Rightarrow> (string \<times> dtype) list \<Rightarrow> string list \<Rightarrow> int \<Rightarrow> py_error + TextFileReader" where
  "read_csv_iter w url dt parse_dates n =
    (if n < 1 then Inl ValueError_chunksize
     else case w url of
       None \<Rightarrow> Inl OpenError
     | Some f \<Rightarrow>
         if header f = [] then Inl EmptyDataError
         else if list_ex (\<lambda>c. c \<notin> set (header f)) parse_dates then Inl ValueError_parse_dates
         else Inr \<lparr>names = header f, dtypes = dt, leading = leading_cols f, pending = lines f,
                   currow = 0, chunksize = nat n, first_chunk = True\<rparr>)"

text \<open>
  \<^verbatim>\<open>next(df_iter)\<close>: the next \<open>chunksize\<close> lines, parsed. When no line is left, the
  first call still returns a frame (empty, with the header's columns); every later call
  raises \<open>StopIteration\<close>.
\<close>

definition next_chunk :: "TextFileReader \<Rightarrow> py_error + (DataFrame \<times> TextFileReader)" where
  "next_chunk r =
    (if pending r = [] then
       (if first_chunk r
        then Inr (chunk_frame (names r) (leading r) (currow r) [], r\<lparr>first_chunk := False\<rparr>)
        else Inl StopIteration)
     else
       (let raw = take (chunksize r) (pending r) in
        case parse_chunk (dtypes r) (names r) (leading r) raw of
          Inl err \<Rightarrow> Inl err
        | Inr cells \<Rightarrow>
            Inr (chunk_frame (names r) (leading r) (currow r) cells,
                 r\<lparr>pending := drop (chunksize r) (pending r),
                   currow := currow r + length raw,
                   first_chunk := False\<rparr>)))"

text \<open>\<^verbatim>\<open>read_csv(url)\<close> as \<open>run\<close> calls it: the whole file at once, every dtype inferred.\<close>

definition read_csv :: "world \<Rightarrow> string \<Rightarrow> py_error + DataFrame" where
  "read_csv w url =
    (case w url of
       None \<Rightarrow> Inl OpenError
     | Some f \<Rightarrow>
         if header f = [] then Inl EmptyDataError
         else
           (case parse_chunk [] (header f) (leading_cols f) (lines f) of
              Inl err \<Rightarrow> Inl err
            | Inr cells \<Rightarrow> Inr (chunk_frame (header f) (leading_cols f) 0 cells)))"

subsection \<open>The destination database\<close>

text \<open>
  The engine holds the tables by name and a log of the statements executed against it,
  oldest first.
\<close>

record table =
  tcolumns :: "string list"
  trows :: "cell list list"

datatype statement =
    DropTable string
  | CreateTable string "string list"
  | InsertRows string nat

record engine =
  tables :: "string \<Rightarrow> table option"
  oplog :: "statement list"

datatype if_exists = replace | append

definition drop_table :: "string \<Rightarrow> engine \<Rightarrow> engine" where
  "drop_table name con =
    con\<lparr>tables := (tables con)(name := None), oplog := oplog con @ [DropTable name]\<rparr>"

definition execute_create :: "string \<Rightarrow> string list \<Rightarrow> engine \<Rightarrow> engine" where
  "execute_create name cols con =
    con\<lparr>tables := (tables con)(name \<mapsto> \<lparr>tcolumns = cols, trows = []\<rparr>),
        oplog := oplog con @ [CreateTable name cols]\<rparr>"

text \<open>
  An insert of no rows issues no statement. The database rejects an insert into a table
  that does not exist or whose columns are not the ones of the statement.
\<close>

definition insert_rows :: "string \<Rightarrow> string list \<Rightarrow> cell list list \<Rightarrow> engine \<Rightarrow> py_error + engine" where
  "insert_rows name cols rws con =
    (if rws = [] then Inr con
     else case tables con name of
       None \<Rightarrow> Inl ProgrammingError
     | Some t \<Rightarrow>
         if tcolumns t = cols
         then Inr (con\<lparr>tables := (tables con)(name \<mapsto> t\<lparr>trows := trows t @ rws\<rparr>),
                       oplog := oplog con @ [InsertRows name (length rws)]\<rparr>)
         else Inl ProgrammingError)"

text \<open>
  \<^verbatim>\<open>to_sql\<close> is called without \<^verbatim>\<open>index=False\<close>, so the frame's index is
  written as columns of its own, in front of the data columns. An index of one level is
  labelled \<^verbatim>\<open>index\<close>, or \<^verbatim>\<open>level_0\<close> when the frame already has a column
  \<^verbatim>\<open>index\<close>; the levels of an index of several levels are labelled
  \<^verbatim>\<open>level_0\<close>, \<^verbatim>\<open>level_1\<close> and so on.
\<close>

definition index_label :: "string list \<Rightarrow> string" where
  "index_label cols = (if ''index'' \<notin> set cols then ''index'' else ''level_0'')"

function decimal :: "nat \<Rightarrow> string" where
  "decimal n = (if n < 10 then [''0123456789'' ! n]
                else decimal (n div 10) @ [''0123456789'' ! (n mod 10)])"
  by pat_completeness auto
termination
  by (relation "measure id") auto

definition level_name :: "nat \<Rightarrow> string" where
  "level_name i = ''level_'' @ decimal i"

definition index_labels :: "string list \<Rightarrow> nat \<Rightarrow> string list" where
  "index_labels cols nl = (if nl = 1 then [index_label cols] else map level_name [0 ..< nl])"

definition sql_columns :: "DataFrame \<Rightarrow> string list" where
  "sql_columns df = index_labels (df_columns df) (df_nlevels df) @ df_columns df"

definition sql_rows :: "DataFrame \<Rightarrow> cell list list" where
  "sql_rows df = map2 (@) (df_index df) (df_rows df)"

text \<open>
  \<^verbatim>\<open>df.to_sql(name, con, if_exists)\<close>: the table definition is built first (and
  refused when a label of the index is also a column); an existing table is dropped and
  created again under \<open>replace\<close> and kept under \<open>append\<close>; a missing table is created;
  then the rows are inserted after the ones already there.
\<close>

definition to_sql :: "DataFrame \<Rightarrow> string \<Rightarrow> engine \<Rightarrow> if_exists \<Rightarrow> py_error + engine" where
  "to_sql df name con mode =
    (if list_ex (\<lambda>l. l \<in> set (df_columns df)) (index_labels (df_columns df) (df_nlevels df))
     then Inl DuplicateColumnError
     else
       (let con1 =
          (case tables con name of
             None \<Rightarrow> execute_create name (sql_columns df) con
           | Some t \<Rightarrow>
               (case mode of
                  replace \<Rightarrow> execute_create name (sql_columns df) (drop_table name con)
                | append \<Rightarrow> con))
        in insert_rows name (sql_columns df) (sql_rows df) con1))"

subsection \<open>ingest\_data\<close>

text \<open>
  A run ends with the exception that stopped it (\<open>None\<close> when it completed) and the
  engine as the run left it. The \<^verbatim>\<open>for\<close> loop over the remaining chunks runs until the
  iterator raises \<open>StopIteration\<close>; it is a partial function, \<open>None\<close> standing for a loop
  that never ends.
\<close>

type_synonym outcome = "py_error option \<times> engine"

partial_function (option) append_chunks ::
  "TextFileReader \<Rightarrow> string \<Rightarrow> engine \<Rightarrow> outcome option" where
  "append_chunks df_iter target_table con =
    (case next_chunk df_iter of
       Inl err \<Rightarrow> if err = StopIteration then Some (None, con) else Some (Some err, con)
     | Inr (df_chunk, df_iter') \<Rightarrow>
         (case to_sql df_chunk target_table con append of
            Inl err \<Rightarrow> Some (Some err, con)
          | Inr con' \<Rightarrow> append_chunks df_iter' target_table con'))"

definition ingest_data :: "world \<Rightarrow> string \<Rightarrow> engine \<Rightarrow> string \<Rightarrow> int \<Rightarrow> outcome option" where
  "ingest_data w url con target_table n =
    (case read_csv_iter w url DTYPE PARSE_DATES n of
       Inl err \<Rightarrow> Some (Some err, con)
     | Inr df_iter \<Rightarrow>
         (case next_chunk df_iter of
            Inl err \<Rightarrow> Some (Some err, con)
          | Inr (first, df_iter1) \<Rightarrow>
              (case to_sql (head 0 first) target_table con replace of
                 Inl err \<Rightarrow> Some (Some err, con)
               | Inr con1 \<Rightarrow>
                   (case to_sql first target_table con1 append of
                      Inl err \<Rightarrow> Some (Some err, con1)
                    | Inr con2 \<Rightarrow> append_chunks df_iter1 target_table con2))))"

subsection \<open>zones\_data.run\<close>

definition zones_url :: string where
  "zones_url = ''https://d37ci6vzurychx.cloudfront.net/misc/taxi_zone_lookup.csv''"

definition run :: "world \<Rightarrow> engine \<Rightarrow> string \<Rightarrow> outcome" where
  "run w con target_table =
    (case read_csv w zones_url of
       Inl err \<Rightarrow> (Some err, con)
     | Inr df_zones \<Rightarrow>
         (case to_sql (head 0 df_zones) target_table con replace of
            Inl err \<Rightarrow> (Some err, con)
          | Inr con1 \<Rightarrow>
              (case to_sql df_zones target_table con1 append of
                 Inl err \<Rightarrow> (Some err, con1)
               | Inr con2 \<Rightarrow> (None, con2))))"

subsection \<open>Observations on the engine\<close>

text \<open>
  What a run leaves behind is read off the engine: the columns and rows stored under a
  table name, and the statements executed since an earlier state of the engine.
\<close>

definition stored_columns :: "engine \<Rightarrow> string \<Rightarrow> string list option" where
  "stored_columns con name = map_option tcolumns (tables con name)"

definition stored_rows :: "engine \<Rightarrow> string \<Rightarrow> cell list list" where
  "stored_rows con name = (case tables con name of None \<Rightarrow> [] | Some t \<Rightarrow> trows t)"

definition statements_since :: "engine \<Rightarrow> engine \<Rightarrow> statement list" where
  "statements_since con con' = drop (length (oplog con)) (oplog con')"

text \<open>
  The columns of the first batch a run of \<open>ingest_data\<close> obtains (\<open>None\<close> when the run
  ends before it has one).
\<close>

definition first_batch_columns :: "world \<Rightarrow> string \<Rightarrow> int \<Rightarrow> string list option" where
  "first_batch_columns w url n =
    (case read_csv_iter w url DTYPE PARSE_DATES n of
       Inl err \<Rightarrow> None
     | Inr df_iter \<Rightarrow>
         (case next_chunk df_iter of
            Inl err \<Rightarrow> None
          | Inr (first, df_iter1) \<Rightarrow> Some (df_columns first)))"

text \<open>The index values stored in the first column of a table's rows.\<close>

fun index_values :: "cell list list \<Rightarrow> nat list" where
  "index_values [] = []"
| "index_values ((Pos i # r) # rws) = i # index_values rws"
| "index_values (r # rws) = index_values rws"

text \<open>
  Reading \<open>r\<close> lines \<open>n\<close> at a time gives \<open>r div n\<close> full batches and, when \<open>n\<close> does
  not divide \<open>r\<close>, one last batch of \<open>r mod n\<close> lines.
\<close>

definition chunk_sizes :: "nat \<Rightarrow> nat \<Rightarrow> nat list" where
  "chunk_sizes n r = replicate (r div n) n @ (if r mod n = 0 then [] else [r mod n])"

text \<open>Rows numbered from position \<open>k\<close> on, as they are stored.\<close>

definition numbered :: "nat \<Rightarrow> cell list list \<Rightarrow> cell list list" where
  "numbered k cells = map2 (\<lambda>i r. Pos i # r) [k ..< k + length cells] cells"

text \<open>
  The labels under which the index of the frames read from a source is stored, and the
  rows as they are stored: behind their position when the index is generated, as they
  are when their leading fields are the index.
\<close>

definition index_columns :: "csv \<Rightarrow> string list" where
  "index_columns f = index_labels (header f) (nlevels (leading_cols f))"

definition stored_as :: "nat \<Rightarrow> nat \<Rightarrow> cell list list \<Rightarrow> cell list list" where
  "stored_as k start cells = (if k = 0 then numbered start cells else cells)"

text \<open>
  The engine after the schema step for columns \<open>cols\<close> (\<open>recreated\<close>), and after a
  complete load of the parsed rows \<open>cells\<close> in batches of the given sizes (\<open>loaded\<close>),
  both for a generated index; \<open>filled\<close> is the engine after a table with the given
  columns was created anew and the given rows were inserted.
\<close>

definition recreated :: "string \<Rightarrow> string list \<Rightarrow> engine \<Rightarrow> engine" where
  "recreated name cols con =
    con\<lparr>tables := (tables con)(name \<mapsto> \<lparr>tcolumns = index_label cols # cols, trows = []\<rparr>),
        oplog := oplog con @ (case tables con name of None \<Rightarrow> [] | Some t \<Rightarrow> [DropTable name])
                  @ [CreateTable name (index_label cols # cols)]\<rparr>"

definition loaded :: "string \<Rightarrow> string list \<Rightarrow> cell list list \<Rightarrow> nat list \<Rightarrow> engine \<Rightarrow> engine" where
  "loaded name cols cells sizes con =
    con\<lparr>tables := (tables con)(name \<mapsto> \<lparr>tcolumns = index_label cols # cols,
                                          trows = numbered 0 cells\<rparr>),
        oplog := oplog con @ (case tables con name of None \<Rightarrow> [] | Some t \<Rightarrow> [DropTable name])
                  @ [CreateTable name (index_label cols # cols)]
                  @ map (InsertRows name) sizes\<rparr>"

definition filled :: "string \<Rightarrow> string list \<Rightarrow> cell list list \<Rightarrow> nat list \<Rightarrow> engine \<Rightarrow> engine" where
  "filled name tcols rws sizes con =
    con\<lparr>tables := (tables con)(name \<mapsto> \<lparr>tcolumns = tcols, trows = rws\<rparr>),
        oplog := oplog con @ (case tables con name of None \<Rightarrow> [] | Some t \<Rightarrow> [DropTable name])
                  @ [CreateTable name tcols]
                  @ map (InsertRows name) sizes\<rparr>"

text \<open>
  A block of lines the reader accepts: no line has more fields than expected and every
  field converts to the dtype declared for its column.
\<close>

definition lines_ok ::
  "(string \<times> dtype) list \<Rightarrow> string list \<Rightarrow> nat \<Rightarrow> csv_field list list \<Rightarrow> bool" where
  "lines_ok dt ns k raw =
    list_all (\<lambda>flds. length flds \<le> k + length ns \<and> fields_convert dt ns k flds) raw"

text \<open>
  The engine after the rows \<open>rws\<close> were appended to the table \<open>tb\<close> stored under \<open>t\<close>
  by inserts of the given sizes.
\<close>

definition appended ::
  "string \<Rightarrow> table \<Rightarrow> cell list list \<Rightarrow> nat list \<Rightarrow> engine \<Rightarrow> engine" where
  "appended t tb rws sizes con =
    con\<lparr>tables := (tables con)(t \<mapsto> tb\<lparr>trows := trows tb @ rws\<rparr>),
        oplog := oplog con @ map (InsertRows t) sizes\<rparr>"

subsection \<open>Example sources and engines\<close>

text \<open>
  Fields with the verdicts the converters give on such text: a whole number is taken by
  both numeric converters, a number with a fraction by the floating-point one only, other
  text by neither.
\<close>

definition num :: "string \<Rightarrow> csv_field" where
  "num s = \<lparr>ftext = s, as_Int64 = True, as_float64 = True\<rparr>"

definition frac :: "string \<Rightarrow> csv_field" where
  "frac s = \<lparr>ftext = s, as_Int64 = False, as_float64 = True\<rparr>"

definition plain :: "string \<Rightarrow> csv_field" where
  "plain s = \<lparr>ftext = s, as_Int64 = False, as_float64 = False\<rparr>"

definition trip_columns :: "string list" where
  "trip_columns =
    [''VendorID'', ''tpep_pickup_datetime'', ''tpep_dropoff_datetime'',
     ''passenger_count'', ''trip_distance'']"

definition trip1 :: "csv_field list" where
  "trip1 = [num ''1'', plain ''2021-01-01 00:30:10'', plain ''2021-01-01 00:36:12'', num ''1'', frac ''2.10'']"

definition trip2 :: "csv_field list" where
  "trip2 = [num ''2'', plain ''2021-01-01 00:51:20'', plain ''2021-01-01 00:52:19'', num ''3'', frac ''0.20'']"

definition trip3 :: "csv_field list" where
  "trip3 = [num ''1'', plain ''2021-01-01 00:43:30'', plain ''2021-01-01 01:11:06'', num ''2'', frac ''14.70'']"

definition trips3 :: csv where
  "trips3 = \<lparr>header = trip_columns, lines = [trip1, trip2, trip3]\<rparr>"

text \<open>The second line has a missing-value marker where the passenger count is declared \<open>Int64\<close>.\<close>

definition trip2_missing :: "csv_field list" where
  "trip2_missing =
    [num ''2'', plain ''2021-01-01 00:51:20'', plain ''2021-01-01 00:52:19'', plain ''NA'', frac ''0.20'']"




definition trips_header_only :: csv where
  "trips_header_only = \<lparr>header = trip_columns, lines = []\<rparr>"

definition trips_bulk :: csv where
  "trips_bulk = \<lparr>header = trip_columns, lines = replicate 250000 trip1\<rparr>"

text \<open>Every line has one field more than the header has labels: a key in front.\<close>

definition trips_keyed :: csv where
  "trips_keyed =
    \<lparr>header = trip_columns, lines = [num ''70'' # trip1, num ''40'' # trip2]\<rparr>"

definition zones2 :: csv where
  "zones2 =
    \<lparr>header = [''LocationID'', ''Borough'', ''Zone'', ''service_zone''],
     lines =
       [[num ''1'', plain ''EWR'', plain ''Newark Airport'', plain ''EWR''],
        [num ''2'', plain ''Queens'', plain ''Jamaica Bay'', plain ''Boro Zone'']]\<rparr>"

text \<open>The frame \<^verbatim>\<open>read_csv\<close> returns for \<open>zones2\<close>.\<close>

definition zones_frame :: DataFrame where
  "zones_frame =
    \<lparr>df_columns = [''LocationID'', ''Borough'', ''Zone'', ''service_zone''],
     df_nlevels = 1,
     df_index = [[Pos 0], [Pos 1]],
     df_rows = [[Lit ''1'', Lit ''EWR'', Lit ''Newark Airport'', Lit ''EWR''],
                [Lit ''2'', Lit ''Queens'', Lit ''Jamaica Bay'', Lit ''Boro Zone'']]\<rparr>"



definition trips_url :: string where
  "trips_url = ''yellow_tripdata_2021-01.csv.gz''"

definition serving :: "string \<Rightarrow> csv \<Rightarrow> world" where
  "serving url f = (\<lambda>u. if u = url then Some f else None)"

definition nowhere :: world where
  "nowhere = (\<lambda>u. None)"

definition empty_engine :: engine where
  "empty_engine = \<lparr>tables = (\<lambda>name. None), oplog = []\<rparr>"

text \<open>An engine that already holds a table of one row under the target name.\<close>

definition old_engine :: engine where
  "old_engine =
    \<lparr>tables = (\<lambda>name. if name = ''yellow_taxi_data''
                        then Some \<lparr>tcolumns = [''index'', ''fare''], trows = [[Pos 0, Lit ''9.50'']]\<rparr>
                        else None),
     oplog = []\<rparr>"

section \<open>Properties of the reader, the writer and the loop\<close>


lemma parse_chunk_ok:
  "lines_ok dt ns k raw \<Longrightarrow> parse_chunk dt ns k raw = Inr (map (parse_line (k + length ns)) raw)"
  unfolding parse_chunk_def lines_ok_def list_ex_iff list_all_iff
  by (simp add: not_less)

lemma parse_chunk_Inr:
  "parse_chunk dt ns k raw = Inr cells \<Longrightarrow>
     lines_ok dt ns k raw \<and> cells = map (parse_line (k + length ns)) raw"
  unfolding parse_chunk_def lines_ok_def list_ex_iff list_all_iff
  by (simp add: not_less split: if_splits)


lemma lines_ok_take: "lines_ok dt ns k raw \<Longrightarrow> lines_ok dt ns k (take m raw)"
  unfolding lines_ok_def list_all_iff by (meson in_set_takeD)

lemma lines_ok_drop: "lines_ok dt ns k raw \<Longrightarrow> lines_ok dt ns k (drop m raw)"
  unfolding lines_ok_def list_all_iff by (meson in_set_dropD)

lemma lines_ok_append:
  "lines_ok dt ns k (xs @ ys) \<longleftrightarrow> lines_ok dt ns k xs \<and> lines_ok dt ns k ys"
  unfolding lines_ok_def by simp

lemma numbered_Nil: "numbered k [] = []"
  by (simp add: numbered_def)

lemma numbered_append:
  "numbered k (xs @ ys) = numbered k xs @ numbered (k + length xs) ys"
proof -
  have "[k ..< k + length xs + length ys] = [k ..< k + length xs] @ [k + length xs ..< k + length xs + length ys]"
    by (rule upt_add_eq_append) simp
  then have "[k ..< k + length (xs @ ys)] = [k ..< k + length xs] @ [k + length xs ..< k + length xs + length ys]"
    by (simp only: length_append add.assoc)
  then show ?thesis
    unfolding numbered_def by (simp only: zip_append length_upt add_diff_cancel_left' map_append)
qed

lemma length_numbered: "length (numbered k cells) = length cells"
  by (simp add: numbered_def)

lemma stored_as_Nil: "stored_as k s [] = []"
  by (simp add: stored_as_def numbered_Nil)

lemma stored_as_append:
  "stored_as k s (xs @ ys) = stored_as k s xs @ stored_as k (s + length xs) ys"
  by (simp add: stored_as_def numbered_append)

lemma length_stored_as: "length (stored_as k s cells) = length cells"
  by (simp add: stored_as_def length_numbered)

lemma chunk_sizes_0: "chunk_sizes n 0 = []"
  by (simp add: chunk_sizes_def)

lemma chunk_sizes_step:
  assumes "0 < n" "0 < r"
  shows "chunk_sizes n r = min n r # chunk_sizes n (r - n)"
proof (cases "r < n")
  case True
  with assms show ?thesis by (simp add: chunk_sizes_def)
next
  case False
  then have "r div n = Suc ((r - n) div n)" "(r - n) mod n = r mod n"
    using assms by (simp_all add: le_div_geq le_mod_geq)
  with False show ?thesis by (simp add: chunk_sizes_def)
qed

lemma map2_take_drop: "map2 (@) (map (take k) cells) (map (drop k) cells) = cells"
  by (induction cells) simp_all

lemma map2_positions:
  "map2 (@) (map (\<lambda>i. [Pos i]) is) cells = map2 (\<lambda>i r. Pos i # r) is cells"
  by (induction "is" arbitrary: cells) (auto simp: zip_Cons1 split: list.splits)

lemma sql_rows_chunk_frame: "sql_rows (chunk_frame ns k s cells) = stored_as k s cells"
  by (simp add: sql_rows_def chunk_frame_def stored_as_def numbered_def map2_take_drop
      map2_positions)

lemma chunk_frame_simps:
  "df_columns (chunk_frame ns k s cells) = ns"
  "df_nlevels (chunk_frame ns k s cells) = nlevels k"
  "sql_columns (chunk_frame ns k s cells) = index_labels ns (nlevels k) @ ns"
  by (simp_all add: chunk_frame_def sql_columns_def)

lemma head0_chunk_frame: "head 0 (chunk_frame ns k s cells) = chunk_frame ns k s []"
  by (simp add: head_def chunk_frame_def)

lemma next_chunk_exhausted:
  "pending r = [] \<Longrightarrow> \<not> first_chunk r \<Longrightarrow> next_chunk r = Inl StopIteration"
  by (simp add: next_chunk_def)

lemma next_chunk_step:
  assumes "pending r \<noteq> []"
    and "lines_ok (dtypes r) (names r) (leading r) (take (chunksize r) (pending r))"
  shows "next_chunk r =
    Inr (chunk_frame (names r) (leading r) (currow r)
           (map (parse_line (leading r + length (names r))) (take (chunksize r) (pending r))),
         r\<lparr>pending := drop (chunksize r) (pending r),
           currow := currow r + length (take (chunksize r) (pending r)),
           first_chunk := False\<rparr>)"
  using assms by (simp add: next_chunk_def Let_def parse_chunk_ok)


lemma to_sql_append_existing:
  assumes "tables con t = Some tb"
    and "tcolumns tb = index_labels ns (nlevels k) @ ns"
    and "\<not> list_ex (\<lambda>l. l \<in> set ns) (index_labels ns (nlevels k))"
    and "cells \<noteq> []"
  shows "to_sql (chunk_frame ns k s cells) t con append =
    Inr (appended t tb (stored_as k s cells) [length cells] con)"
proof -
  have "stored_as k s cells \<noteq> []"
    using assms(4) length_stored_as [of k s cells] by (metis length_0_conv)
  then show ?thesis
    using assms(1-3)
    by (simp add: to_sql_def insert_rows_def chunk_frame_simps sql_rows_chunk_frame
        length_stored_as appended_def)
qed

lemma to_sql_append_empty:
  assumes "tables con t = Some tb"
    and "\<not> list_ex (\<lambda>l. l \<in> set ns) (index_labels ns (nlevels k))"
  shows "to_sql (chunk_frame ns k s []) t con append = Inr con"
  using assms
  by (simp add: to_sql_def insert_rows_def chunk_frame_simps sql_rows_chunk_frame stored_as_Nil)

lemma to_sql_head0_replace:
  assumes "\<not> list_ex (\<lambda>l. l \<in> set (df_columns df)) (index_labels (df_columns df) (df_nlevels df))"
  shows "to_sql (head 0 df) t con replace = Inr (filled t (sql_columns df) [] [] con)"
  using assms
  by (cases "tables con t")
     (simp_all add: to_sql_def head_def sql_columns_def sql_rows_def insert_rows_def
        execute_create_def drop_table_def filled_def)

lemma filled_table:
  "tables (filled t tcols rws sizes con) t = Some \<lparr>tcolumns = tcols, trows = rws\<rparr>"
  by (simp add: filled_def)

lemma appended_Nil: "tables con t = Some tb \<Longrightarrow> appended t tb [] [] con = con"
  by (simp add: appended_def fun_upd_idem)

lemma appended_appended:
  "appended t (tb\<lparr>trows := trows tb @ xs\<rparr>) ys szs (appended t tb xs [n] con) =
   appended t tb (xs @ ys) (n # szs) con"
  by (simp add: appended_def)

lemma appended_filled:
  "appended t \<lparr>tcolumns = tcols, trows = []\<rparr> rws sizes (filled t tcols [] [] con) =
   filled t tcols rws sizes con"
  by (simp add: appended_def filled_def)

lemma read_csv_iter_ok:
  assumes "1 \<le> n" "w url = Some f" "header f \<noteq> []" "set pd \<subseteq> set (header f)"
  shows "read_csv_iter w url dt pd n =
    Inr \<lparr>names = header f, dtypes = dt, leading = leading_cols f, pending = lines f,
         currow = 0, chunksize = nat n, first_chunk = True\<rparr>"
  using assms by (auto simp: read_csv_iter_def list_ex_iff)


lemma append_chunks_ok:
  assumes "0 < chunksize r" "\<not> first_chunk r"
    and "lines_ok (dtypes r) (names r) (leading r) (pending r)"
    and "tables con t = Some tb"
    and "tcolumns tb = index_labels (names r) (nlevels (leading r)) @ names r"
    and "\<not> list_ex (\<lambda>l. l \<in> set (names r)) (index_labels (names r) (nlevels (leading r)))"
  shows "append_chunks r t con =
    Some (None, appended t tb
                  (stored_as (leading r) (currow r)
                     (map (parse_line (leading r + length (names r))) (pending r)))
                  (chunk_sizes (chunksize r) (length (pending r))) con)"
  using assms
proof (induction "length (pending r)" arbitrary: r con tb rule: less_induct)
  case less
  show ?case
  proof (cases "pending r = []")
    case True
    with less.prems have "next_chunk r = Inl StopIteration"
      by (simp add: next_chunk_exhausted)
    then have "append_chunks r t con = Some (None, con)"
      by (subst append_chunks.simps) simp
    with True less.prems(4) show ?thesis
      by (simp add: chunk_sizes_0 appended_Nil stored_as_Nil)
  next
    case False
    define k where "k = leading r"
    define wd where "wd = leading r + length (names r)"
    define raw where "raw = take (chunksize r) (pending r)"
    define cells where "cells = map (parse_line wd) raw"
    define r' where "r' = r\<lparr>pending := drop (chunksize r) (pending r),
      currow := currow r + length raw, first_chunk := False\<rparr>"
    define tb' where "tb' = tb\<lparr>trows := trows tb @ stored_as k (currow r) cells\<rparr>"
    define con' where "con' = appended t tb (stored_as k (currow r) cells) [length raw] con"
    have raw_ne: "raw \<noteq> []" and len_raw: "length raw = min (chunksize r) (length (pending r))"
      using False less.prems(1) by (simp_all add: raw_def min.commute)
    have cells_ne: "cells \<noteq> []" and len_cells: "length cells = length raw"
      using raw_ne by (simp_all add: cells_def)
    have ok_raw: "lines_ok (dtypes r) (names r) (leading r) raw"
      unfolding raw_def by (rule lines_ok_take) (rule less.prems(3))
    have nxt: "next_chunk r = Inr (chunk_frame (names r) k (currow r) cells, r')"
      using next_chunk_step [OF False] ok_raw
      by (simp add: raw_def cells_def r'_def k_def wd_def)
    have wr: "to_sql (chunk_frame (names r) k (currow r) cells) t con append = Inr con'"
      using to_sql_append_existing [of con t tb "names r" k cells "currow r"]
        less.prems(4,5,6) cells_ne
      by (simp add: con'_def len_cells k_def)
    have unfold: "append_chunks r t con = append_chunks r' t con'"
      by (subst append_chunks.simps) (simp add: nxt wr)
    have smaller: "length (pending r') < length (pending r)"
      using False less.prems(1) by (simp add: r'_def)
    have ih: "append_chunks r' t con' =
      Some (None, appended t tb'
                    (stored_as (leading r') (currow r')
                       (map (parse_line (leading r' + length (names r'))) (pending r')))
                    (chunk_sizes (chunksize r') (length (pending r'))) con')"
    proof (rule less.hyps [OF smaller])
      show "0 < chunksize r'" using less.prems(1) by (simp add: r'_def)
      show "\<not> first_chunk r'" by (simp add: r'_def)
      show "lines_ok (dtypes r') (names r') (leading r') (pending r')"
        using lines_ok_drop [OF less.prems(3)] by (simp add: r'_def)
      show "tables con' t = Some tb'" by (simp add: con'_def appended_def tb'_def)
      show "tcolumns tb' = index_labels (names r') (nlevels (leading r')) @ names r'"
        using less.prems(5) by (simp add: tb'_def r'_def)
      show "\<not> list_ex (\<lambda>l. l \<in> set (names r')) (index_labels (names r') (nlevels (leading r')))"
        using less.prems(6) by (simp add: r'_def)
    qed
    have split: "map (parse_line wd) (pending r) =
        cells @ map (parse_line wd) (drop (chunksize r) (pending r))"
      unfolding cells_def raw_def by (simp only: map_append [symmetric] append_take_drop_id)
    have sizes: "chunk_sizes (chunksize r) (length (pending r)) =
        length raw # chunk_sizes (chunksize r) (length (pending r) - chunksize r)"
      using chunk_sizes_step [OF less.prems(1), of "length (pending r)"] False
      by (simp add: len_raw)
    have "appended t tb'
            (stored_as (leading r') (currow r')
               (map (parse_line (leading r' + length (names r'))) (pending r')))
            (chunk_sizes (chunksize r') (length (pending r'))) con' =
          appended t tb
            (stored_as k (currow r) (map (parse_line wd) (pending r)))
            (chunk_sizes (chunksize r) (length (pending r))) con"
      unfolding split sizes stored_as_append
      using appended_appended [of t tb "stored_as k (currow r) cells"
          "stored_as k (currow r + length cells)
             (map (parse_line wd) (drop (chunksize r) (pending r)))"
          "chunk_sizes (chunksize r) (length (pending r) - chunksize r)" "length raw" con]
      by (simp add: tb'_def con'_def r'_def len_cells k_def wd_def)
    with unfold ih show ?thesis by (simp add: k_def wd_def)
  qed
qed


lemma labels_free_iff:
  "set (index_columns f) \<inter> set (header f) = {} \<longleftrightarrow>
   \<not> list_ex (\<lambda>l. l \<in> set (header f)) (index_labels (header f) (nlevels (leading_cols f)))"
  unfolding index_columns_def list_ex_iff by blast

lemma index_columns_generated:
  "leading_cols f = 0 \<Longrightarrow> index_columns f = [index_label (header f)]"
  by (simp add: index_columns_def nlevels_def index_labels_def)

lemma filled_loaded:
  "filled t (index_label ns # ns) (numbered 0 cells) sizes con = loaded t ns cells sizes con"
  by (simp add: filled_def loaded_def)

lemma filled_recreated: "filled t (index_label ns # ns) [] [] con = recreated t ns con"
  by (simp add: filled_def recreated_def)

lemma ingest_data_as_loop:
  assumes "1 \<le> n" "w url = Some f" "header f \<noteq> []" "set PARSE_DATES \<subseteq> set (header f)"
    and "set (index_columns f) \<inter> set (header f) = {}"
    and "lines_ok DTYPE (header f) (leading_cols f) (take (nat n) (lines f))"
  shows "ingest_data w url con t n =
    append_chunks \<lparr>names = header f, dtypes = DTYPE, leading = leading_cols f,
                    pending = lines f, currow = 0, chunksize = nat n, first_chunk = False\<rparr>
      t (filled t (index_columns f @ header f) [] [] con)"
proof -
  define k where "k = leading_cols f"
  define r0 where "r0 = \<lparr>names = header f, dtypes = DTYPE, leading = k, pending = lines f,
    currow = 0, chunksize = nat n, first_chunk = True\<rparr>"
  define r0' where "r0' = \<lparr>names = header f, dtypes = DTYPE, leading = k, pending = lines f,
    currow = 0, chunksize = nat n, first_chunk = False\<rparr>"
  define tcols where "tcols = index_columns f @ header f"
  define con1 where "con1 = filled t tcols [] [] con"
  have free: "\<not> list_ex (\<lambda>l. l \<in> set (header f)) (index_labels (header f) (nlevels k))"
    using assms(5) unfolding k_def labels_free_iff .
  have tcols: "tcols = index_labels (header f) (nlevels k) @ header f"
    by (simp add: tcols_def index_columns_def k_def)
  have rd: "read_csv_iter w url DTYPE PARSE_DATES n = Inr r0"
    unfolding r0_def k_def by (rule read_csv_iter_ok) (rule assms)+
  have tb1: "tables con1 t = Some \<lparr>tcolumns = tcols, trows = []\<rparr>"
    by (simp add: con1_def filled_table)
  have cr: "to_sql (head 0 (chunk_frame (header f) k s cells)) t con replace = Inr con1" for s cells
    using to_sql_head0_replace [of "chunk_frame (header f) k s cells" t con] free
    by (simp add: chunk_frame_simps con1_def tcols)
  show ?thesis
  proof (cases "lines f = []")
    case True
    define df where "df = chunk_frame (header f) k 0 []"
    have nxt: "next_chunk r0 = Inr (df, r0')"
      using True by (simp add: next_chunk_def r0_def r0'_def df_def)
    have wr: "to_sql df t con1 append = Inr con1"
      unfolding df_def by (rule to_sql_append_empty [OF tb1 free])
    have lhs: "ingest_data w url con t n = append_chunks r0' t con1"
      by (simp add: ingest_data_def rd nxt cr [of 0 "[]", folded df_def] wr)
    then show ?thesis by (simp add: r0'_def con1_def tcols_def k_def)
  next
    case False
    define raw where "raw = take (nat n) (lines f)"
    define cells where "cells = map (parse_line (k + length (header f))) raw"
    define df where "df = chunk_frame (header f) k 0 cells"
    define r1 where "r1 = \<lparr>names = header f, dtypes = DTYPE, leading = k,
      pending = drop (nat n) (lines f), currow = length raw, chunksize = nat n,
      first_chunk = False\<rparr>"
    have nxt: "next_chunk r0 = Inr (df, r1)"
      using next_chunk_step [of r0] False assms(6)
      by (simp add: r0_def df_def r1_def cells_def raw_def k_def)
    have nxt': "next_chunk r0' = Inr (df, r1)"
      using next_chunk_step [of r0'] False assms(6)
      by (simp add: r0'_def df_def r1_def cells_def raw_def k_def)
    have "raw \<noteq> []" using False assms(1) by (simp add: raw_def)
    then have cells_ne: "cells \<noteq> []" by (simp add: cells_def)
    obtain con2 where wr: "to_sql df t con1 append = Inr con2"
      using to_sql_append_existing [of con1 t _ "header f" k cells 0] tb1 free cells_ne
      by (simp add: df_def tcols)
    have lhs: "ingest_data w url con t n = append_chunks r1 t con2"
      by (simp add: ingest_data_def rd nxt cr [of 0 cells, folded df_def] wr)
    have rhs: "append_chunks r0' t con1 = append_chunks r1 t con2"
      by (subst append_chunks.simps) (simp add: nxt' wr)
    from lhs rhs show ?thesis by (simp add: r0'_def con1_def tcols_def k_def)
  qed
qed

lemma ingest_data_filled:
  assumes "1 \<le> n" "w url = Some f" "header f \<noteq> []" "set PARSE_DATES \<subseteq> set (header f)"
    and "set (index_columns f) \<inter> set (header f) = {}"
    and "lines_ok DTYPE (header f) (leading_cols f) (lines f)"
  shows "ingest_data w url con t n =
    Some (None, filled t (index_columns f @ header f)
                  (stored_as (leading_cols f) 0
                     (map (parse_line (leading_cols f + length (header f))) (lines f)))
                  (chunk_sizes (nat n) (length (lines f))) con)"
proof -
  define r where "r = \<lparr>names = header f, dtypes = DTYPE, leading = leading_cols f,
    pending = lines f, currow = 0, chunksize = nat n, first_chunk = False\<rparr>"
  define tcols where "tcols = index_columns f @ header f"
  have free: "\<not> list_ex (\<lambda>l. l \<in> set (header f)) (index_labels (header f) (nlevels (leading_cols f)))"
    using assms(5) unfolding labels_free_iff .
  have "ingest_data w url con t n = append_chunks r t (filled t tcols [] [] con)"
    unfolding r_def tcols_def
    by (rule ingest_data_as_loop) (rule assms lines_ok_take [OF assms(6)])+
  also have "\<dots> = Some (None, appended t \<lparr>tcolumns = tcols, trows = []\<rparr>
        (stored_as (leading r) (currow r) (map (parse_line (leading r + length (names r))) (pending r)))
        (chunk_sizes (chunksize r) (length (pending r))) (filled t tcols [] [] con))"
  proof (rule append_chunks_ok)
    show "0 < chunksize r" using assms(1) by (simp add: r_def)
    show "\<not> first_chunk r" by (simp add: r_def)
    show "lines_ok (dtypes r) (names r) (leading r) (pending r)" using assms(6) by (simp add: r_def)
    show "tables (filled t tcols [] [] con) t = Some \<lparr>tcolumns = tcols, trows = []\<rparr>"
      by (rule filled_table)
    show "tcolumns \<lparr>tcolumns = tcols, trows = []\<rparr> =
        index_labels (names r) (nlevels (leading r)) @ names r"
      by (simp add: tcols_def index_columns_def r_def)
    show "\<not> list_ex (\<lambda>l. l \<in> set (names r)) (index_labels (names r) (nlevels (leading r)))"
      using free by (simp add: r_def)
  qed
  finally show ?thesis by (simp add: appended_filled r_def tcols_def)
qed



lemma ingest_data_loaded:
  assumes "1 \<le> n" "w url = Some f" "header f \<noteq> []" "set PARSE_DATES \<subseteq> set (header f)"
    and "index_label (header f) \<notin> set (header f)"
    and "leading_cols f = 0"
    and "lines_ok DTYPE (header f) 0 (lines f)"
  shows "ingest_data w url con t n =
    Some (None, loaded t (header f) (map (parse_line (length (header f))) (lines f))
                  (chunk_sizes (nat n) (length (lines f))) con)"
proof -
  have free: "set (index_columns f) \<inter> set (header f) = {}"
    using assms(5,6) by (simp add: index_columns_generated)
  have ok: "lines_ok DTYPE (header f) (leading_cols f) (lines f)"
    using assms(6,7) by simp
  show ?thesis
    using ingest_data_filled [where w = w and url = url and f = f and n = n and con = con and t = t,
        OF assms(1-4) free ok] assms(6)
    by (simp add: index_columns_generated stored_as_def filled_loaded)
qed

subsection \<open>What a complete load leaves in the engine\<close>

lemma stored_rows_filled: "stored_rows (filled t tcols rws sizes con) t = rws"
  by (simp add: stored_rows_def filled_def)

lemma stored_columns_filled: "stored_columns (filled t tcols rws sizes con) t = Some tcols"
  by (simp add: stored_columns_def filled_def)

lemma statements_since_filled:
  "statements_since con (filled t tcols rws sizes con) =
     (case tables con t of None \<Rightarrow> [] | Some tb \<Rightarrow> [DropTable t])
       @ [CreateTable t tcols] @ map (InsertRows t) sizes"
  by (simp add: statements_since_def filled_def)

lemma tables_filled_twice:
  "tables (filled t tcols rws sizes (filled t tcols' rws' sizes' con)) =
   tables (filled t tcols rws sizes con)"
  by (simp add: filled_def)

lemma stored_rows_loaded: "stored_rows (loaded t ns cells sizes con) t = numbered 0 cells"
  by (simp add: stored_rows_def loaded_def)

lemma stored_columns_loaded:
  "stored_columns (loaded t ns cells sizes con) t = Some (index_label ns # ns)"
  by (simp add: stored_columns_def loaded_def)

lemma statements_since_loaded:
  "statements_since con (loaded t ns cells sizes con) =
     (case tables con t of None \<Rightarrow> [] | Some tb \<Rightarrow> [DropTable t])
       @ [CreateTable t (index_label ns # ns)] @ map (InsertRows t) sizes"
  by (simp add: statements_since_def loaded_def)

lemma tables_loaded_same:
  "tables (loaded t ns cells sizes con) t =
     Some \<lparr>tcolumns = index_label ns # ns, trows = numbered 0 cells\<rparr>"
  by (simp add: loaded_def)

lemma map_tl_numbered: "map tl (numbered k cells) = cells"
proof -
  have "map tl (map2 (\<lambda>i r. Pos i # r) is cells) = cells" if "length is = length cells" for "is"
    using that by (induction "is" cells rule: list_induct2) simp_all
  then show ?thesis by (simp add: numbered_def)
qed

lemma map_hd_numbered: "map hd (numbered k cells) = map Pos [k ..< k + length cells]"
proof -
  have "map hd (map2 (\<lambda>i r. Pos i # r) is cells) = map Pos is" if "length is = length cells" for "is"
    using that by (induction "is" cells rule: list_induct2) simp_all
  then show ?thesis by (simp add: numbered_def)
qed

lemma index_values_numbered: "index_values (numbered k cells) = [k ..< k + length cells]"
proof -
  have "index_values (map2 (\<lambda>i r. Pos i # r) is cells) = is" if "length is = length cells" for "is"
    using that by (induction "is" cells rule: list_induct2) simp_all
  then show ?thesis by (simp add: numbered_def)
qed

lemma length_chunk_sizes:
  assumes n: "0 < n"
  shows "length (chunk_sizes n r) = (r + n - 1) div n"
proof -
  define m where "m = r mod n"
  define q where "q = r div n"
  have r: "r = q * n + m" by (simp add: m_def q_def)
  have "(r + n - 1) div n = q + (if m = 0 then 0 else 1)"
  proof (cases "m = 0")
    case True
    then have "r + n - 1 = q * n + (n - 1)" using r n by simp
    then have "(r + n - 1) div n = q + (n - 1) div n"
      using n by (simp only: div_mult_self3) 
    with True n show ?thesis by simp
  next
    case False
    then have m: "0 < m" "m < n" using n by (simp_all add: m_def)
    then have "r + n - 1 = (q + 1) * n + (m - 1)" using r by (simp add: algebra_simps)
    then have "(r + n - 1) div n = (q + 1) + (m - 1) div n"
      using n by (simp only: div_mult_self3)
    with False m show ?thesis by simp
  qed
  then show ?thesis by (simp add: chunk_sizes_def m_def q_def)
qed

lemma sum_list_chunk_sizes: "sum_list (chunk_sizes n r) = r"
proof -
  have "r div n * n + r mod n = r" by simp
  then show ?thesis by (auto simp: chunk_sizes_def sum_list_replicate)
qed

lemma butlast_chunk_sizes: "list_all (\<lambda>s. s = n) (butlast (chunk_sizes n r))"
  by (simp add: chunk_sizes_def list_all_iff butlast_append)
     (metis in_set_butlastD in_set_replicate)

lemma last_chunk_sizes:
  assumes "0 < n" "0 < r"
  shows "0 < last (chunk_sizes n r) \<and> last (chunk_sizes n r) \<le> n"
proof (cases "r mod n = 0")
  case True
  then have "0 < r div n" using assms by (metis div_greater_zero_iff dvd_imp_le mod_0_imp_dvd)
  with True assms show ?thesis by (simp add: chunk_sizes_def)
next
  case False
  with assms show ?thesis by (simp add: chunk_sizes_def less_imp_le)
qed

subsection \<open>The zone loader\<close>

lemma read_csv_Inr:
  assumes "read_csv w url = Inr df"
  obtains g where "w url = Some g" "header g \<noteq> []"
    "lines_ok [] (header g) (leading_cols g) (lines g)"
    "df = chunk_frame (header g) (leading_cols g) 0
            (map (parse_line (leading_cols g + length (header g))) (lines g))"
proof -
  from assms obtain g where g: "w url = Some g"
    by (cases "w url") (simp_all add: read_csv_def)
  from assms g have h: "header g \<noteq> []"
    by (auto simp: read_csv_def split: if_splits)
  from assms g h obtain cells where p: "parse_chunk [] (header g) (leading_cols g) (lines g) = Inr cells"
    and df: "df = chunk_frame (header g) (leading_cols g) 0 cells"
    by (auto simp: read_csv_def split: sum.splits)
  from parse_chunk_Inr [OF p] df have "lines_ok [] (header g) (leading_cols g) (lines g)"
    "df = chunk_frame (header g) (leading_cols g) 0
            (map (parse_line (leading_cols g + length (header g))) (lines g))"
    by simp_all
  with g h show thesis by (rule that)
qed

lemma run_filled:
  assumes "read_csv w zones_url = Inr df"
    and "set (index_labels (df_columns df) (df_nlevels df)) \<inter> set (df_columns df) = {}"
  shows "run w con t =
    (None, filled t (sql_columns df) (sql_rows df)
             (if df_rows df = [] then [] else [length (df_rows df)]) con)"
proof -
  from assms(1) obtain g where g: "w zones_url = Some g" "header g \<noteq> []"
    and df: "df = chunk_frame (header g) (leading_cols g) 0
            (map (parse_line (leading_cols g + length (header g))) (lines g))"
    by (rule read_csv_Inr)
  define ns where "ns = header g"
  define k where "k = leading_cols g"
  define cells where "cells = map (parse_line (leading_cols g + length (header g))) (lines g)"
  define tcols where "tcols = index_labels ns (nlevels k) @ ns"
  define con1 where "con1 = filled t tcols [] [] con"
  have df': "df = chunk_frame ns k 0 cells"
    using df by (simp add: ns_def cells_def k_def)
  have cols: "df_columns df = ns" "df_nlevels df = nlevels k" "sql_columns df = tcols"
    and rws: "sql_rows df = stored_as k 0 cells"
    by (simp_all add: df' chunk_frame_simps sql_rows_chunk_frame tcols_def)
  have len: "length (df_rows df) = length cells" and empty: "df_rows df = [] \<longleftrightarrow> cells = []"
    by (simp_all add: df' chunk_frame_def)
  have free: "\<not> list_ex (\<lambda>l. l \<in> set ns) (index_labels ns (nlevels k))"
    using assms(2) unfolding cols list_ex_iff by blast
  have cr: "to_sql (head 0 df) t con replace = Inr con1"
    using to_sql_head0_replace [of df t con] free by (simp add: cols con1_def)
  have tb: "tables con1 t = Some \<lparr>tcolumns = tcols, trows = []\<rparr>"
    unfolding con1_def by (rule filled_table)
  have wr: "to_sql df t con1 append =
    Inr (filled t tcols (stored_as k 0 cells) (if cells = [] then [] else [length cells]) con)"
  proof (cases "cells = []")
    case True
    have "to_sql (chunk_frame ns k 0 []) t con1 append = Inr con1"
      by (rule to_sql_append_empty [OF tb free])
    with True show ?thesis by (simp add: df' con1_def stored_as_Nil)
  next
    case False
    have "to_sql (chunk_frame ns k 0 cells) t con1 append =
      Inr (appended t \<lparr>tcolumns = tcols, trows = []\<rparr> (stored_as k 0 cells) [length cells] con1)"
      using to_sql_append_existing [of con1 t _ ns k cells 0] tb free False
      by (simp add: tcols_def)
    then show ?thesis
      using False unfolding con1_def by (simp only: appended_filled df' if_False)
  qed
  have "run w con t =
    (None, filled t tcols (stored_as k 0 cells) (if cells = [] then [] else [length cells]) con)"
    by (simp add: run_def assms(1) cr wr)
  then show ?thesis by (simp only: cols rws len empty)
qed

subsection \<open>The example sources\<close>

lemma trip_columns_facts:
  "trip_columns \<noteq> []" "set PARSE_DATES \<subseteq> set trip_columns"
  "index_label trip_columns = ''index''" "index_label trip_columns \<notin> set trip_columns"
  "length trip_columns = 5" "distinct trip_columns" "[] \<notin> set trip_columns"
  by (simp_all add: trip_columns_def PARSE_DATES_def index_label_def)

lemma trip_lines_ok:
  "length trip1 = 5" "fields_convert DTYPE trip_columns 0 trip1"
  "length trip2 = 5" "fields_convert DTYPE trip_columns 0 trip2"
  "length trip3 = 5" "fields_convert DTYPE trip_columns 0 trip3"
  "length trip2_missing = 5" "fields_convert DTYPE trip_columns 0 trip2_missing"
  by (simp_all add: trip1_def trip2_def trip3_def trip2_missing_def fields_convert_def
      trip_columns_def pad_def DTYPE_def convertible_def num_def frac_def plain_def
      is_na_def STR_NA_VALUES_def)

lemma trip_cells:
  "parse_line 5 trip1 =
     [Lit ''1'', Lit ''2021-01-01 00:30:10'', Lit ''2021-01-01 00:36:12'', Lit ''1'', Lit ''2.10'']"
  "parse_line 5 trip2 =
     [Lit ''2'', Lit ''2021-01-01 00:51:20'', Lit ''2021-01-01 00:52:19'', Lit ''3'', Lit ''0.20'']"
  "parse_line 5 trip3 =
     [Lit ''1'', Lit ''2021-01-01 00:43:30'', Lit ''2021-01-01 01:11:06'', Lit ''2'', Lit ''14.70'']"
  "parse_line 5 trip2_missing =
     [Lit ''2'', Lit ''2021-01-01 00:51:20'', Lit ''2021-01-01 00:52:19'', NA, Lit ''0.20'']"
  by (simp_all add: trip1_def trip2_def trip3_def trip2_missing_def parse_line_def pad_def
      to_cell_def num_def frac_def plain_def is_na_def STR_NA_VALUES_def)

lemma generated_index:
  assumes "header f = trip_columns" "leading_cols f = 0"
  shows "index_columns f = [''index'']" "set (index_columns f) \<inter> set (header f) = {}"
  using assms trip_columns_facts(3,4) by (simp_all add: index_columns_generated)

lemma trips3_facts:
  "header trips3 = trip_columns" "lines trips3 = [trip1, trip2, trip3]"
  "leading_cols trips3 = 0"
  "header trips3 \<noteq> []" "set PARSE_DATES \<subseteq> set (header trips3)"
  "set (index_columns trips3) \<inter> set (header trips3) = {}"
  "lines_ok DTYPE (header trips3) (leading_cols trips3) (lines trips3)"
  "index_columns trips3 = [''index'']"
proof -
  show h: "header trips3 = trip_columns" and l: "lines trips3 = [trip1, trip2, trip3]"
    by (simp_all add: trips3_def)
  show k: "leading_cols trips3 = 0"
    by (simp add: leading_cols_def h l trip_lines_ok trip_columns_facts)
  show "header trips3 \<noteq> []" "set PARSE_DATES \<subseteq> set (header trips3)"
    unfolding h by (rule trip_columns_facts)+
  show "set (index_columns trips3) \<inter> set (header trips3) = {}" "index_columns trips3 = [''index'']"
    using h k by (rule generated_index)+
  show "lines_ok DTYPE (header trips3) (leading_cols trips3) (lines trips3)"
    unfolding h k l by (simp add: lines_ok_def trip_lines_ok trip_columns_facts)
qed

lemma trips3_parse:
  "parse_chunk DTYPE (header trips3) (leading_cols trips3) (lines trips3) =
     Inr (map (parse_line 5) (lines trips3))"
  using parse_chunk_ok [OF trips3_facts(7)]
  by (simp add: trips3_facts(1,3) trip_columns_facts)

lemma serving_same: "serving url f url = Some f"
  by (simp add: serving_def)

lemma empty_engine_tables: "tables empty_engine t = None"
  by (simp add: empty_engine_def)

lemma old_engine_table:
  "tables old_engine ''yellow_taxi_data'' =
     Some \<lparr>tcolumns = [''index'', ''fare''], trows = [[Pos 0, Lit ''9.50'']]\<rparr>"
  by (simp add: old_engine_def)

lemma old_engine_stored:
  "stored_rows old_engine ''yellow_taxi_data'' = [[Pos 0, Lit ''9.50'']]"
  "stored_columns old_engine ''yellow_taxi_data'' = Some [''index'', ''fare'']"
  by (simp_all add: stored_rows_def stored_columns_def old_engine_table)

lemma chunk_sizes_1_3: "chunk_sizes (Suc 0) 3 = [1, 1, 1]"
  by (simp add: chunk_sizes_def numeral_3_eq_3)

lemma chunk_sizes_2_3: "chunk_sizes 2 3 = [2, 1]"
  by (simp add: chunk_sizes_def)

lemma chunk_sizes_2_2: "chunk_sizes 2 2 = [2]"
  by (simp add: chunk_sizes_def)

lemma chunk_sizes_bulk: "chunk_sizes 100000 250000 = [100000, 100000, 50000]"
  by (simp add: chunk_sizes_def numeral_2_eq_2)

lemma chunk_sizes_big_2: "chunk_sizes 100000 2 = [2]"
  by (simp add: chunk_sizes_def)

lemma header_only_facts:
  "header trips_header_only = trip_columns" "lines trips_header_only = []"
  "header trips_header_only \<noteq> []" "set PARSE_DATES \<subseteq> set (header trips_header_only)"
  "index_label (header trips_header_only) \<notin> set (header trips_header_only)"
proof -
  show h: "header trips_header_only = trip_columns" by (simp add: trips_header_only_def)
  show "lines trips_header_only = []" by (simp add: trips_header_only_def)
  show "header trips_header_only \<noteq> []" unfolding h by (rule trip_columns_facts)
  show "set PARSE_DATES \<subseteq> set (header trips_header_only)"
    unfolding h by (rule trip_columns_facts)
  show "index_label (header trips_header_only) \<notin> set (header trips_header_only)"
    unfolding h by (rule trip_columns_facts)
qed

lemma first_batch_columns_ok:
  assumes "1 \<le> n" "w url = Some f" "header f \<noteq> []" "set PARSE_DATES \<subseteq> set (header f)"
    and "lines_ok DTYPE (header f) (leading_cols f) (take (nat n) (lines f))"
  shows "first_batch_columns w url n = Some (header f)"
proof -
  define r0 where "r0 = \<lparr>names = header f, dtypes = DTYPE, leading = leading_cols f,
    pending = lines f, currow = 0, chunksize = nat n, first_chunk = True\<rparr>"
  have rd: "read_csv_iter w url DTYPE PARSE_DATES n = Inr r0"
    unfolding r0_def by (rule read_csv_iter_ok) (rule assms)+
  have "\<exists>first r'. next_chunk r0 = Inr (first, r') \<and> df_columns first = header f"
  proof (cases "lines f = []")
    case True
    then show ?thesis by (simp add: next_chunk_def r0_def chunk_frame_simps)
  next
    case False
    then show ?thesis
      using next_chunk_step [of r0] assms(5) by (simp add: r0_def chunk_frame_simps)
  qed
  then show ?thesis
    by (auto simp: first_batch_columns_def rd)
qed

lemma header_only_run:
  "ingest_data (serving trips_url trips_header_only) trips_url con t 100000 =
     Some (None, loaded t trip_columns [] [] con)"
proof -
  have 1: "(1::int) \<le> 100000" by simp
  have k: "leading_cols trips_header_only = 0"
    by (simp add: leading_cols_def header_only_facts(2))
  have ok: "lines_ok DTYPE (header trips_header_only) 0 (lines trips_header_only)"
    by (simp add: header_only_facts(2) lines_ok_def)
  show ?thesis
    using ingest_data_loaded
      [where w = "serving trips_url trips_header_only" and url = trips_url
         and f = trips_header_only and n = 100000 and con = con and t = t,
       OF 1 serving_same header_only_facts(3-5) k ok]
    by (simp add: header_only_facts(1,2) chunk_sizes_0)
qed

lemma length_index_columns: "length (index_columns f) = nlevels (leading_cols f)"
  by (simp add: index_columns_def index_labels_def nlevels_def)

lemma data_columns_stored:
  "map (drop (nlevels k)) (stored_as k s cells) = map (drop k) cells"
proof (cases "k = 0")
  case True
  have "map (drop (Suc 0)) (numbered s cells) = map tl (numbered s cells)"
    by (simp add: drop_Suc)
  with True show ?thesis by (simp add: stored_as_def nlevels_def map_tl_numbered)
next
  case False
  then show ?thesis by (simp add: stored_as_def nlevels_def)
qed

lemma trips_bulk_facts:
  "header trips_bulk = trip_columns" "length (lines trips_bulk) = 250000"
  "leading_cols trips_bulk = 0"
  "header trips_bulk \<noteq> []" "set PARSE_DATES \<subseteq> set (header trips_bulk)"
  "set (index_columns trips_bulk) \<inter> set (header trips_bulk) = {}"
  "lines_ok DTYPE (header trips_bulk) (leading_cols trips_bulk) (lines trips_bulk)"
  "index_columns trips_bulk = [''index'']"
proof -
  show h: "header trips_bulk = trip_columns" and "length (lines trips_bulk) = 250000"
    by (simp_all add: trips_bulk_def)
  have l: "lines trips_bulk = trip1 # replicate 249999 trip1"
    by (simp add: trips_bulk_def replicate_Suc [symmetric] del: replicate_Suc)
  show k: "leading_cols trips_bulk = 0"
    by (simp add: leading_cols_def h l trip_lines_ok trip_columns_facts)
  show "header trips_bulk \<noteq> []" "set PARSE_DATES \<subseteq> set (header trips_bulk)"
    unfolding h by (rule trip_columns_facts)+
  show "set (index_columns trips_bulk) \<inter> set (header trips_bulk) = {}"
    "index_columns trips_bulk = [''index'']"
    using h k by (rule generated_index)+
  show "lines_ok DTYPE (header trips_bulk) (leading_cols trips_bulk) (lines trips_bulk)"
    unfolding h k by (simp add: trips_bulk_def lines_ok_def list_all_iff trip_lines_ok
        trip_columns_facts)
qed

lemma keyed_cells:
  "parse_line 6 (num ''70'' # trip1) =
     [Lit ''70'', Lit ''1'', Lit ''2021-01-01 00:30:10'', Lit ''2021-01-01 00:36:12'', Lit ''1'', Lit ''2.10'']"
  "parse_line 6 (num ''40'' # trip2) =
     [Lit ''40'', Lit ''2'', Lit ''2021-01-01 00:51:20'', Lit ''2021-01-01 00:52:19'', Lit ''3'', Lit ''0.20'']"
  by (simp_all add: trip1_def trip2_def parse_line_def pad_def
      to_cell_def num_def frac_def plain_def is_na_def STR_NA_VALUES_def)

lemma keyed_lines_ok:
  "fields_convert DTYPE trip_columns (Suc 0) (num ''70'' # trip1)"
  "fields_convert DTYPE trip_columns (Suc 0) (num ''40'' # trip2)"
  by (simp_all add: trip1_def trip2_def fields_convert_def
      trip_columns_def pad_def DTYPE_def convertible_def num_def frac_def plain_def
      is_na_def STR_NA_VALUES_def)

lemma trips_keyed_facts:
  "header trips_keyed = trip_columns"
  "lines trips_keyed = [num ''70'' # trip1, num ''40'' # trip2]"
  "leading_cols trips_keyed = 1"
  "header trips_keyed \<noteq> []" "set PARSE_DATES \<subseteq> set (header trips_keyed)"
  "set (index_columns trips_keyed) \<inter> set (header trips_keyed) = {}"
  "lines_ok DTYPE (header trips_keyed) (leading_cols trips_keyed) (lines trips_keyed)"
  "index_columns trips_keyed = [''index'']"
proof -
  show h: "header trips_keyed = trip_columns"
    and l: "lines trips_keyed = [num ''70'' # trip1, num ''40'' # trip2]"
    by (simp_all add: trips_keyed_def)
  show k: "leading_cols trips_keyed = 1"
    by (simp add: leading_cols_def h l trip_lines_ok trip_columns_facts)
  show "header trips_keyed \<noteq> []" "set PARSE_DATES \<subseteq> set (header trips_keyed)"
    unfolding h by (rule trip_columns_facts)+
  show i: "index_columns trips_keyed = [''index'']"
    by (simp add: index_columns_def h k nlevels_def index_labels_def trip_columns_facts)
  show "set (index_columns trips_keyed) \<inter> set (header trips_keyed) = {}"
    unfolding i h using trip_columns_facts(3,4) by simp
  show "lines_ok DTYPE (header trips_keyed) (leading_cols trips_keyed) (lines trips_keyed)"
    unfolding h k l by (simp add: lines_ok_def trip_lines_ok trip_columns_facts keyed_lines_ok)
qed

lemma trips_keyed_parse:
  "parse_chunk DTYPE (header trips_keyed) (leading_cols trips_keyed) (lines trips_keyed) =
     Inr (map (parse_line 6) (lines trips_keyed))"
  using parse_chunk_ok [OF trips_keyed_facts(7)]
  by (simp add: trips_keyed_facts(1,3) trip_columns_facts)

lemma trips_keyed_run:
  "ingest_data (serving trips_url trips_keyed) trips_url con t 100000 =
     Some (None, filled t (''index'' # trip_columns)
       [[Lit ''70'', Lit ''1'', Lit ''2021-01-01 00:30:10'', Lit ''2021-01-01 00:36:12'', Lit ''1'', Lit ''2.10''],
        [Lit ''40'', Lit ''2'', Lit ''2021-01-01 00:51:20'', Lit ''2021-01-01 00:52:19'', Lit ''3'', Lit ''0.20'']]
       [2] con)"
proof -
  have 1: "(1::int) \<le> 100000" by simp
  have cs: "chunk_sizes 100000 (Suc (Suc 0)) = [2]"
    using chunk_sizes_big_2 by (simp add: numeral_2_eq_2)
  show ?thesis
    using ingest_data_filled
      [where w = "serving trips_url trips_keyed" and url = trips_url and f = trips_keyed
         and n = 100000 and con = con and t = t,
       OF 1 serving_same trips_keyed_facts(4,5,6,7)]
    by (simp add: trips_keyed_facts(1,2,3,8) trip_columns_facts(5) stored_as_def keyed_cells cs)
qed

lemma read_csv_lengths:
  assumes "read_csv w url = Inr df"
  shows "length (sql_rows df) = length (df_rows df)"
proof -
  from assms obtain g where
    df: "df = chunk_frame (header g) (leading_cols g) 0
            (map (parse_line (leading_cols g + length (header g))) (lines g))"
    by (rule read_csv_Inr)
  show ?thesis
    unfolding df sql_rows_chunk_frame length_stored_as
    by (simp add: chunk_frame_def)
qed

lemma both_serves_trips:
  "((serving trips_url trips3)(zones_url \<mapsto> zones2)) trips_url = Some trips3"
  by (simp add: serving_def trips_url_def zones_url_def)

lemma read_zones2:
  "read_csv ((serving trips_url trips3)(zones_url \<mapsto> zones2)) zones_url = Inr zones_frame"
  by (simp add: read_csv_def zones2_def leading_cols_def parse_chunk_def fields_convert_def
      pad_def convertible_def parse_line_def to_cell_def num_def plain_def is_na_def
      STR_NA_VALUES_def chunk_frame_def zones_frame_def nlevels_def upt_rec)

lemma zones_frame_facts:
  "set (index_labels (df_columns zones_frame) (df_nlevels zones_frame))
     \<inter> set (df_columns zones_frame) = {}"
  "sql_columns zones_frame = [''index'', ''LocationID'', ''Borough'', ''Zone'', ''service_zone'']"
  "length (df_rows zones_frame) = 2" "df_rows zones_frame \<noteq> []"
  by (simp_all add: zones_frame_def index_labels_def index_label_def sql_columns_def)



















section \<open>The claims\<close>

text \<open>
  Claim C7. A chunk size of zero is refused by \<^verbatim>\<open>read_csv\<close> itself, whatever the
  location holds: no reader is returned, so no batch is ever obtained; \<open>ingest_data\<close>
  ends with that exception, which is of the kind \<open>InvalidConfiguration\<close>, and the
  engine is the one it was given (no table was created).
\<close>

theorem zero_chunksize_is_invalid_configuration:
  "read_csv_iter w url DTYPE PARSE_DATES 0 = Inl ValueError_chunksize
   \<and> ingest_data w url con target_table 0 = Some (Some ValueError_chunksize, con)
   \<and> error_kind_of ValueError_chunksize = Some InvalidConfiguration"
  by (simp add: read_csv_iter_def ingest_data_def)

theorem zero_chunksize_witness:
  "ingest_data (serving trips_url trips3) trips_url empty_engine ''yellow_taxi_data'' 0 =
     Some (Some ValueError_chunksize, empty_engine)
   \<and> error_kind_of ValueError_chunksize = Some InvalidConfiguration"
  using zero_chunksize_is_invalid_configuration
    [of "serving trips_url trips3" trips_url empty_engine "''yellow_taxi_data''"]
  by simp

text \<open>
  Claim C5, as amended. When the location cannot be opened, the run ends before any
  table is created and the engine is left as it was: no statement is executed. This is
  stated for each loader on its own. For the zone loader the exception is the one of the
  unreachable source, of the kind \<open>SourceUnavailable\<close>. For \<open>ingest_data\<close> it is that
  one provided the chunk size is at least 1; a smaller chunk size is refused first,
  before the source is opened.
\<close>

theorem unreachable_source_leaves_database_untouched:
  "(w url = None \<longrightarrow>
      ingest_data w url con target_table n =
        Some (Some (if 1 \<le> n then OpenError else ValueError_chunksize), con))
   \<and> (w zones_url = None \<longrightarrow> run w con' zones_table = (Some OpenError, con'))
   \<and> error_kind_of OpenError = Some SourceUnavailable"
  by (simp add: ingest_data_def read_csv_iter_def run_def read_csv_def)

theorem unreachable_source_witness:
  "nowhere trips_url = None
   \<and> ingest_data nowhere trips_url old_engine ''yellow_taxi_data'' 100000 =
       Some (Some OpenError, old_engine)
   \<and> nowhere zones_url = None
   \<and> run nowhere old_engine ''zones'' = (Some OpenError, old_engine)
   \<and> error_kind_of OpenError = Some SourceUnavailable"
  using unreachable_source_leaves_database_untouched
    [of nowhere trips_url old_engine "''yellow_taxi_data''" 100000 old_engine "''zones''"]
  by (simp add: nowhere_def)

text \<open>
  The claim as stated fails: with a chunk size of zero and an unreachable location the
  run ends with the chunk-size error, which is not of the kind \<open>SourceUnavailable\<close>.
\<close>

theorem unreachable_source_counterexample:
  "nowhere trips_url = None
   \<and> ingest_data nowhere trips_url empty_engine ''yellow_taxi_data'' 0 =
       Some (Some ValueError_chunksize, empty_engine)
   \<and> error_kind_of ValueError_chunksize \<noteq> Some SourceUnavailable"
  by (simp add: ingest_data_def read_csv_iter_def nowhere_def)

text \<open>
  Claim C1. Let the source be reachable and accepted by the reader, with \<open>R \<ge> 1\<close> data
  lines, and let the chunk size be \<open>C \<ge> 1\<close>. Then the run completes, and the statements
  it executes are the schema step followed by one insert per batch, of the sizes
  \<open>chunk_sizes C R\<close>: there are \<open>\<lceil>R / C\<rceil>\<close> batches, every batch but the last has
  exactly \<open>C\<close> rows, the last has between 1 and \<open>C\<close>, the sizes add up to \<open>R\<close>, and the
  table ends with \<open>R\<close> rows. For 250000 lines read 100000 at a time (the witness) the
  table is created once and the inserts have 100000, 100000 and 50000 rows.
\<close>

theorem chunked_read_covers_every_row:
  assumes "1 \<le> n" and "w url = Some f"
    and "header f \<noteq> []" and "set PARSE_DATES \<subseteq> set (header f)"
    and "set (index_columns f) \<inter> set (header f) = {}"
    and "parse_chunk DTYPE (header f) (leading_cols f) (lines f) = Inr cells"
    and "1 \<le> length (lines f)"
  shows "\<exists>con'. ingest_data w url con target_table n = Some (None, con')
    \<and> statements_since con con' =
        (case tables con target_table of None \<Rightarrow> [] | Some tb \<Rightarrow> [DropTable target_table])
          @ [CreateTable target_table (index_columns f @ header f)]
          @ map (InsertRows target_table) (chunk_sizes (nat n) (length (lines f)))
    \<and> length (chunk_sizes (nat n) (length (lines f))) = (length (lines f) + nat n - 1) div nat n
    \<and> list_all (\<lambda>s. s = nat n) (butlast (chunk_sizes (nat n) (length (lines f))))
    \<and> 0 < last (chunk_sizes (nat n) (length (lines f)))
    \<and> last (chunk_sizes (nat n) (length (lines f))) \<le> nat n
    \<and> sum_list (chunk_sizes (nat n) (length (lines f))) = length (lines f)
    \<and> length (stored_rows con' target_table) = length (lines f)"
proof -
  have ok: "lines_ok DTYPE (header f) (leading_cols f) (lines f)"
    using parse_chunk_Inr [OF assms(6)] by simp
  have n: "0 < nat n" using assms(1) by simp
  have r: "0 < length (lines f)" using assms(7) by (cases "lines f") simp_all
  have run: "ingest_data w url con target_table n =
    Some (None, filled target_table (index_columns f @ header f)
                  (stored_as (leading_cols f) 0
                     (map (parse_line (leading_cols f + length (header f))) (lines f)))
                  (chunk_sizes (nat n) (length (lines f))) con)"
    by (rule ingest_data_filled) (rule assms ok)+
  show ?thesis
    unfolding run
    using length_chunk_sizes [OF n, of "length (lines f)"] last_chunk_sizes [OF n r]
      butlast_chunk_sizes [of "nat n" "length (lines f)"]
    by (simp add: statements_since_filled stored_rows_filled length_stored_as
        sum_list_chunk_sizes)
qed

theorem chunked_read_witness:
  "\<exists>con'. ingest_data (serving trips_url trips_bulk) trips_url empty_engine ''yellow_taxi_data'' 100000 =
       Some (None, con')
     \<and> statements_since empty_engine con' =
         [CreateTable ''yellow_taxi_data'' (''index'' # trip_columns),
          InsertRows ''yellow_taxi_data'' 100000,
          InsertRows ''yellow_taxi_data'' 100000,
          InsertRows ''yellow_taxi_data'' 50000]
     \<and> length (stored_rows con' ''yellow_taxi_data'') = 250000"
proof -
  have 1: "(1::int) \<le> 100000" by simp
  have 6: "parse_chunk DTYPE (header trips_bulk) (leading_cols trips_bulk) (lines trips_bulk) =
      Inr (map (parse_line (leading_cols trips_bulk + length (header trips_bulk))) (lines trips_bulk))"
    by (rule parse_chunk_ok [OF trips_bulk_facts(7)])
  have 7: "1 \<le> length (lines trips_bulk)" by (simp add: trips_bulk_facts(2))
  show ?thesis
    using chunked_read_covers_every_row
      [where w = "serving trips_url trips_bulk" and url = trips_url and f = trips_bulk
         and n = 100000 and con = empty_engine and target_table = "''yellow_taxi_data''",
       OF 1 serving_same trips_bulk_facts(4,5,6) 6 7]
    by (simp add: trips_bulk_facts(1,2,8) empty_engine_tables chunk_sizes_bulk)
qed

text \<open>
  Claim C6. Every batch is appended after the rows already stored, in its own order
  (\<open>insert_rows\<close>), and the batches arrive in file order; so after a completed run the
  data part of the stored rows (each row without its index values) is the list of the
  source's lines, parsed, in their original order. With a chunk size of 1 and three lines
  (the witness) there are three inserts of one row each and the table holds the three
  rows in that order.
\<close>

theorem rows_stored_in_source_order:
  assumes "1 \<le> n" and "w url = Some f"
    and "header f \<noteq> []" and "set PARSE_DATES \<subseteq> set (header f)"
    and "set (index_columns f) \<inter> set (header f) = {}"
    and "parse_chunk DTYPE (header f) (leading_cols f) (lines f) = Inr cells"
  shows "\<exists>con'. ingest_data w url con target_table n = Some (None, con')
    \<and> cells = map (parse_line (leading_cols f + length (header f))) (lines f)
    \<and> stored_rows con' target_table = stored_as (leading_cols f) 0 cells
    \<and> map (drop (length (index_columns f))) (stored_rows con' target_table) =
        map (drop (leading_cols f)) cells
    \<and> length (stored_rows con' target_table) = length (lines f)
    \<and> statements_since con con' =
        (case tables con target_table of None \<Rightarrow> [] | Some tb \<Rightarrow> [DropTable target_table])
          @ [CreateTable target_table (index_columns f @ header f)]
          @ map (InsertRows target_table) (chunk_sizes (nat n) (length (lines f)))"
proof -
  have ok: "lines_ok DTYPE (header f) (leading_cols f) (lines f)"
    and cells: "cells = map (parse_line (leading_cols f + length (header f))) (lines f)"
    using parse_chunk_Inr [OF assms(6)] by simp_all
  have run: "ingest_data w url con target_table n =
    Some (None, filled target_table (index_columns f @ header f)
                  (stored_as (leading_cols f) 0
                     (map (parse_line (leading_cols f + length (header f))) (lines f)))
                  (chunk_sizes (nat n) (length (lines f))) con)"
    by (rule ingest_data_filled) (rule assms ok)+
  show ?thesis
    unfolding run cells [symmetric]
    by (simp add: statements_since_filled stored_rows_filled length_stored_as
        length_index_columns data_columns_stored) (simp add: cells)
qed

theorem rows_stored_in_source_order_witness:
  "\<exists>con'. ingest_data (serving trips_url trips3) trips_url empty_engine ''yellow_taxi_data'' 1 =
       Some (None, con')
     \<and> stored_rows con' ''yellow_taxi_data'' =
         [[Pos 0, Lit ''1'', Lit ''2021-01-01 00:30:10'', Lit ''2021-01-01 00:36:12'', Lit ''1'', Lit ''2.10''],
          [Pos 1, Lit ''2'', Lit ''2021-01-01 00:51:20'', Lit ''2021-01-01 00:52:19'', Lit ''3'', Lit ''0.20''],
          [Pos 2, Lit ''1'', Lit ''2021-01-01 00:43:30'', Lit ''2021-01-01 01:11:06'', Lit ''2'', Lit ''14.70'']]
     \<and> map (drop 1) (stored_rows con' ''yellow_taxi_data'') =
         [[Lit ''1'', Lit ''2021-01-01 00:30:10'', Lit ''2021-01-01 00:36:12'', Lit ''1'', Lit ''2.10''],
          [Lit ''2'', Lit ''2021-01-01 00:51:20'', Lit ''2021-01-01 00:52:19'', Lit ''3'', Lit ''0.20''],
          [Lit ''1'', Lit ''2021-01-01 00:43:30'', Lit ''2021-01-01 01:11:06'', Lit ''2'', Lit ''14.70'']]
     \<and> length (stored_rows con' ''yellow_taxi_data'') = 3
     \<and> statements_since empty_engine con' =
         [CreateTable ''yellow_taxi_data'' (''index'' # trip_columns),
          InsertRows ''yellow_taxi_data'' 1,
          InsertRows ''yellow_taxi_data'' 1,
          InsertRows ''yellow_taxi_data'' 1]"
proof -
  have 1: "(1::int) \<le> 1" by simp
  have st: "stored_as 0 0
      [[Lit ''1'', Lit ''2021-01-01 00:30:10'', Lit ''2021-01-01 00:36:12'', Lit ''1'', Lit ''2.10''],
       [Lit ''2'', Lit ''2021-01-01 00:51:20'', Lit ''2021-01-01 00:52:19'', Lit ''3'', Lit ''0.20''],
       [Lit ''1'', Lit ''2021-01-01 00:43:30'', Lit ''2021-01-01 01:11:06'', Lit ''2'', Lit ''14.70'']] =
      [[Pos 0, Lit ''1'', Lit ''2021-01-01 00:30:10'', Lit ''2021-01-01 00:36:12'', Lit ''1'', Lit ''2.10''],
       [Pos 1, Lit ''2'', Lit ''2021-01-01 00:51:20'', Lit ''2021-01-01 00:52:19'', Lit ''3'', Lit ''0.20''],
       [Pos 2, Lit ''1'', Lit ''2021-01-01 00:43:30'', Lit ''2021-01-01 01:11:06'', Lit ''2'', Lit ''14.70'']]"
    by (simp add: stored_as_def numbered_def upt_rec)
  have cs: "chunk_sizes (Suc 0) (Suc (Suc (Suc 0))) = [1, 1, 1]"
    using chunk_sizes_1_3 by (simp add: numeral_3_eq_3)
  show ?thesis
    using rows_stored_in_source_order
      [where w = "serving trips_url trips3" and url = trips_url and f = trips3
         and n = 1 and con = empty_engine and target_table = "''yellow_taxi_data''",
       OF 1 serving_same trips3_facts(4,5,6) trips3_parse]
    by (simp add: trips3_facts(1,2,3,8) trip_columns_facts(5) empty_engine_tables
        cs st trip_cells numeral_3_eq_3)
qed

text \<open>
  Claim C10, as amended. When the first data line of the source has as many fields as the
  header has labels (or fewer), the reader generates the index: each stored row starts
  with the zero-based position of its line in the source, the chunk iterator numbering
  every chunk from \<open>currow\<close> on, so that the values run through \<open>0, 1, \<dots>, R - 1\<close> across
  the batches, without repetition and strictly increasing. When the first data line has
  more fields than the header has labels, the reader takes the leading fields of every
  line as the index instead: the rows are stored as they were parsed, under the index
  labels followed by the header, and no position is generated.
\<close>

theorem index_column_is_source_position:
  assumes "1 \<le> n" and "w url = Some f"
    and "header f \<noteq> []" and "set PARSE_DATES \<subseteq> set (header f)"
    and "set (index_columns f) \<inter> set (header f) = {}"
    and "parse_chunk DTYPE (header f) (leading_cols f) (lines f) = Inr cells"
  shows "\<exists>con'. ingest_data w url con target_table n = Some (None, con')
    \<and> stored_columns con' target_table = Some (index_columns f @ header f)
    \<and> (if leading_cols f = 0
       then index_columns f = [index_label (header f)]
          \<and> map hd (stored_rows con' target_table) = map Pos [0 ..< length (lines f)]
          \<and> index_values (stored_rows con' target_table) = [0 ..< length (lines f)]
          \<and> distinct (index_values (stored_rows con' target_table))
          \<and> sorted_wrt (<) (index_values (stored_rows con' target_table))
       else length (index_columns f) = leading_cols f
          \<and> stored_rows con' target_table = cells
          \<and> index_values (stored_rows con' target_table) = [])"
proof -
  have ok: "lines_ok DTYPE (header f) (leading_cols f) (lines f)"
    and cells: "cells = map (parse_line (leading_cols f + length (header f))) (lines f)"
    using parse_chunk_Inr [OF assms(6)] by simp_all
  have run: "ingest_data w url con target_table n =
    Some (None, filled target_table (index_columns f @ header f)
                  (stored_as (leading_cols f) 0
                     (map (parse_line (leading_cols f + length (header f))) (lines f)))
                  (chunk_sizes (nat n) (length (lines f))) con)"
    by (rule ingest_data_filled) (rule assms ok)+
  have no_pos: "index_values (map (parse_line m) ls) = []" for m ls
  proof (induction ls)
    case Nil
    show ?case by simp
  next
    case (Cons l ls)
    have "index_values (map to_cell fs # rest) = index_values rest" for fs rest
      by (cases fs) (simp_all add: to_cell_def)
    with Cons show ?case by (simp add: parse_line_def)
  qed
  show ?thesis
    unfolding run
    by (simp add: stored_rows_filled stored_columns_filled stored_as_def map_hd_numbered
        index_values_numbered length_index_columns index_columns_generated nlevels_def
        no_pos cells)
qed

theorem index_column_witness:
  "(\<exists>con'. ingest_data (serving trips_url trips3) trips_url empty_engine ''yellow_taxi_data'' 2 =
       Some (None, con')
     \<and> stored_columns con' ''yellow_taxi_data'' = Some (''index'' # trip_columns)
     \<and> map hd (stored_rows con' ''yellow_taxi_data'') = [Pos 0, Pos 1, Pos 2]
     \<and> index_values (stored_rows con' ''yellow_taxi_data'') = [0, 1, 2]
     \<and> distinct (index_values (stored_rows con' ''yellow_taxi_data''))
     \<and> sorted_wrt (<) (index_values (stored_rows con' ''yellow_taxi_data'')))
   \<and> (\<exists>con'. ingest_data (serving trips_url trips_keyed) trips_url empty_engine ''yellow_taxi_data'' 2 =
       Some (None, con')
     \<and> stored_columns con' ''yellow_taxi_data'' = Some (''index'' # trip_columns)
     \<and> stored_rows con' ''yellow_taxi_data'' =
        [[Lit ''70'', Lit ''1'', Lit ''2021-01-01 00:30:10'', Lit ''2021-01-01 00:36:12'', Lit ''1'', Lit ''2.10''],
         [Lit ''40'', Lit ''2'', Lit ''2021-01-01 00:51:20'', Lit ''2021-01-01 00:52:19'', Lit ''3'', Lit ''0.20'']]
     \<and> index_values (stored_rows con' ''yellow_taxi_data'') = [])"
proof -
  have 1: "(1::int) \<le> 2" by simp
  have a: "\<exists>con'. ingest_data (serving trips_url trips3) trips_url empty_engine ''yellow_taxi_data'' 2 =
       Some (None, con')
     \<and> stored_columns con' ''yellow_taxi_data'' = Some (''index'' # trip_columns)
     \<and> map hd (stored_rows con' ''yellow_taxi_data'') = [Pos 0, Pos 1, Pos 2]
     \<and> index_values (stored_rows con' ''yellow_taxi_data'') = [0, 1, 2]
     \<and> distinct (index_values (stored_rows con' ''yellow_taxi_data''))
     \<and> sorted_wrt (<) (index_values (stored_rows con' ''yellow_taxi_data''))"
    using index_column_is_source_position
      [where w = "serving trips_url trips3" and url = trips_url and f = trips3
         and n = 2 and con = empty_engine and target_table = "''yellow_taxi_data''",
       OF 1 serving_same trips3_facts(4,5,6) trips3_parse]
    by (simp add: trips3_facts(1,2,3,8) trip_columns_facts(3) numeral_2_eq_2)
  have b: "\<exists>con'. ingest_data (serving trips_url trips_keyed) trips_url empty_engine ''yellow_taxi_data'' 2 =
       Some (None, con')
     \<and> stored_columns con' ''yellow_taxi_data'' = Some (''index'' # trip_columns)
     \<and> stored_rows con' ''yellow_taxi_data'' =
        [[Lit ''70'', Lit ''1'', Lit ''2021-01-01 00:30:10'', Lit ''2021-01-01 00:36:12'', Lit ''1'', Lit ''2.10''],
         [Lit ''40'', Lit ''2'', Lit ''2021-01-01 00:51:20'', Lit ''2021-01-01 00:52:19'', Lit ''3'', Lit ''0.20'']]
     \<and> index_values (stored_rows con' ''yellow_taxi_data'') = []"
    using index_column_is_source_position
      [where w = "serving trips_url trips_keyed" and url = trips_url and f = trips_keyed
         and n = 2 and con = empty_engine and target_table = "''yellow_taxi_data''",
       OF 1 serving_same trips_keyed_facts(4,5,6) trips_keyed_parse]
    by (simp add: trips_keyed_facts(1,2,3,8) keyed_cells)
  from a b show ?thesis by (rule conjI)
qed

text \<open>
  The claim as stated fails: the lines of this source start with a key (\<open>70\<close>, \<open>40\<close>)
  in front of the fields the header names. The run completes, and the value stored in
  the index column of each row is that key, not the position of the row: no stored row
  carries a generated index value, and the stored keys are not increasing.
\<close>

theorem index_column_counterexample:
  "ingest_data (serving trips_url trips_keyed) trips_url empty_engine ''yellow_taxi_data'' 100000 =
     Some (None, filled ''yellow_taxi_data'' (''index'' # trip_columns)
       [[Lit ''70'', Lit ''1'', Lit ''2021-01-01 00:30:10'', Lit ''2021-01-01 00:36:12'', Lit ''1'', Lit ''2.10''],
        [Lit ''40'', Lit ''2'', Lit ''2021-01-01 00:51:20'', Lit ''2021-01-01 00:52:19'', Lit ''3'', Lit ''0.20'']]
       [2] empty_engine)
   \<and> map hd (stored_rows (filled ''yellow_taxi_data'' (''index'' # trip_columns)
       [[Lit ''70'', Lit ''1'', Lit ''2021-01-01 00:30:10'', Lit ''2021-01-01 00:36:12'', Lit ''1'', Lit ''2.10''],
        [Lit ''40'', Lit ''2'', Lit ''2021-01-01 00:51:20'', Lit ''2021-01-01 00:52:19'', Lit ''3'', Lit ''0.20'']]
       [2] empty_engine) ''yellow_taxi_data'') = [Lit ''70'', Lit ''40'']
   \<and> map hd (stored_rows (filled ''yellow_taxi_data'' (''index'' # trip_columns)
       [[Lit ''70'', Lit ''1'', Lit ''2021-01-01 00:30:10'', Lit ''2021-01-01 00:36:12'', Lit ''1'', Lit ''2.10''],
        [Lit ''40'', Lit ''2'', Lit ''2021-01-01 00:51:20'', Lit ''2021-01-01 00:52:19'', Lit ''3'', Lit ''0.20'']]
       [2] empty_engine) ''yellow_taxi_data'') \<noteq> [Pos 0, Pos 1]"
  by (simp add: trips_keyed_run stored_rows_filled)

text \<open>
  Claim C3. A second run against the same table name and the same source leaves the
  tables exactly as the first run left them: the table holds one run's rows, not two.
  The statements of the second run begin with the drop of the existing table and its
  creation, and only then come the inserts. This is stated for each loader on its own:
  for \<open>ingest_data\<close> whenever its source is read to the end, and for the zone loader
  whenever its source is read.
\<close>

theorem rerun_replaces_table:
  "(1 \<le> n \<and> w url = Some f \<and> header f \<noteq> [] \<and> set PARSE_DATES \<subseteq> set (header f)
      \<and> set (index_columns f) \<inter> set (header f) = {}
      \<and> parse_chunk DTYPE (header f) (leading_cols f) (lines f) = Inr cells
    \<longrightarrow> (\<exists>con1 con2.
            ingest_data w url con target_table n = Some (None, con1)
          \<and> ingest_data w url con1 target_table n = Some (None, con2)
          \<and> tables con2 = tables con1
          \<and> stored_rows con2 target_table = stored_rows con1 target_table
          \<and> length (stored_rows con2 target_table) = length (lines f)
          \<and> statements_since con1 con2 =
              DropTable target_table
                # CreateTable target_table (index_columns f @ header f)
                # map (InsertRows target_table) (chunk_sizes (nat n) (length (lines f)))))
   \<and> (read_csv w' zones_url = Inr df
      \<and> set (index_labels (df_columns df) (df_nlevels df)) \<inter> set (df_columns df) = {}
    \<longrightarrow> (\<exists>z1 z2.
            run w' zcon zones_table = (None, z1)
          \<and> run w' z1 zones_table = (None, z2)
          \<and> tables z2 = tables z1
          \<and> stored_rows z2 zones_table = stored_rows z1 zones_table
          \<and> length (stored_rows z2 zones_table) = length (df_rows df)
          \<and> statements_since z1 z2 =
              DropTable zones_table
                # CreateTable zones_table (sql_columns df)
                # (if df_rows df = [] then [] else [InsertRows zones_table (length (df_rows df))])))"
proof (intro conjI impI)
  assume a: "1 \<le> n \<and> w url = Some f \<and> header f \<noteq> [] \<and> set PARSE_DATES \<subseteq> set (header f)
      \<and> set (index_columns f) \<inter> set (header f) = {}
      \<and> parse_chunk DTYPE (header f) (leading_cols f) (lines f) = Inr cells"
  then have p: "parse_chunk DTYPE (header f) (leading_cols f) (lines f) = Inr cells" by simp
  have ok: "lines_ok DTYPE (header f) (leading_cols f) (lines f)"
    using parse_chunk_Inr [OF p] by simp
  have run1: "ingest_data w url c target_table n =
    Some (None, filled target_table (index_columns f @ header f)
                  (stored_as (leading_cols f) 0
                     (map (parse_line (leading_cols f + length (header f))) (lines f)))
                  (chunk_sizes (nat n) (length (lines f))) c)" for c
    by (rule ingest_data_filled) (use a ok in simp_all)
  show "\<exists>con1 con2.
            ingest_data w url con target_table n = Some (None, con1)
          \<and> ingest_data w url con1 target_table n = Some (None, con2)
          \<and> tables con2 = tables con1
          \<and> stored_rows con2 target_table = stored_rows con1 target_table
          \<and> length (stored_rows con2 target_table) = length (lines f)
          \<and> statements_since con1 con2 =
              DropTable target_table
                # CreateTable target_table (index_columns f @ header f)
                # map (InsertRows target_table) (chunk_sizes (nat n) (length (lines f)))"
    unfolding run1
    by (simp add: tables_filled_twice statements_since_filled filled_table
        stored_rows_filled length_stored_as)
next
  assume b: "read_csv w' zones_url = Inr df
      \<and> set (index_labels (df_columns df) (df_nlevels df)) \<inter> set (df_columns df) = {}"
  then have rd: "read_csv w' zones_url = Inr df"
    and free: "set (index_labels (df_columns df) (df_nlevels df)) \<inter> set (df_columns df) = {}"
    by simp_all
  have run2: "run w' c zones_table =
    (None, filled zones_table (sql_columns df) (sql_rows df)
             (if df_rows df = [] then [] else [length (df_rows df)]) c)" for c
    by (rule run_filled) (rule rd free)+
  show "\<exists>z1 z2.
            run w' zcon zones_table = (None, z1)
          \<and> run w' z1 zones_table = (None, z2)
          \<and> tables z2 = tables z1
          \<and> stored_rows z2 zones_table = stored_rows z1 zones_table
          \<and> length (stored_rows z2 zones_table) = length (df_rows df)
          \<and> statements_since z1 z2 =
              DropTable zones_table
                # CreateTable zones_table (sql_columns df)
                # (if df_rows df = [] then [] else [InsertRows zones_table (length (df_rows df))])"
    unfolding run2
    by (simp add: tables_filled_twice statements_since_filled filled_table
        stored_rows_filled read_csv_lengths [OF rd])
qed

theorem rerun_replaces_table_witness:
  "(\<exists>con1 con2.
       ingest_data ((serving trips_url trips3)(zones_url \<mapsto> zones2)) trips_url empty_engine
         ''yellow_taxi_data'' 2 = Some (None, con1)
     \<and> ingest_data ((serving trips_url trips3)(zones_url \<mapsto> zones2)) trips_url con1
         ''yellow_taxi_data'' 2 = Some (None, con2)
     \<and> tables con2 = tables con1
     \<and> stored_rows con2 ''yellow_taxi_data'' = stored_rows con1 ''yellow_taxi_data''
     \<and> length (stored_rows con2 ''yellow_taxi_data'') = 3
     \<and> statements_since con1 con2 =
         [DropTable ''yellow_taxi_data'',
          CreateTable ''yellow_taxi_data'' (''index'' # trip_columns),
          InsertRows ''yellow_taxi_data'' 2,
          InsertRows ''yellow_taxi_data'' 1])
   \<and> (\<exists>z1 z2.
       run ((serving trips_url trips3)(zones_url \<mapsto> zones2)) empty_engine ''zones'' = (None, z1)
     \<and> run ((serving trips_url trips3)(zones_url \<mapsto> zones2)) z1 ''zones'' = (None, z2)
     \<and> tables z2 = tables z1
     \<and> stored_rows z2 ''zones'' = stored_rows z1 ''zones''
     \<and> length (stored_rows z2 ''zones'') = 2
     \<and> statements_since z1 z2 =
         [DropTable ''zones'',
          CreateTable ''zones'' [''index'', ''LocationID'', ''Borough'', ''Zone'', ''service_zone''],
          InsertRows ''zones'' 2])"
proof -
  have 1: "(1::int) \<le> 2" by simp
  have cs: "chunk_sizes 2 (Suc (Suc (Suc 0))) = [2, 1]"
    using chunk_sizes_2_3 by (simp add: numeral_3_eq_3)
  have hyp1: "1 \<le> (2::int)
      \<and> ((serving trips_url trips3)(zones_url \<mapsto> zones2)) trips_url = Some trips3
      \<and> header trips3 \<noteq> [] \<and> set PARSE_DATES \<subseteq> set (header trips3)
      \<and> set (index_columns trips3) \<inter> set (header trips3) = {}
      \<and> parse_chunk DTYPE (header trips3) (leading_cols trips3) (lines trips3) =
          Inr (map (parse_line 5) (lines trips3))"
    by (intro conjI 1 both_serves_trips trips3_facts(4,5,6) trips3_parse)
  have hyp2: "read_csv ((serving trips_url trips3)(zones_url \<mapsto> zones2)) zones_url = Inr zones_frame
      \<and> set (index_labels (df_columns zones_frame) (df_nlevels zones_frame))
          \<inter> set (df_columns zones_frame) = {}"
    by (intro conjI read_zones2 zones_frame_facts(1))
  note inst = rerun_replaces_table
      [where w = "(serving trips_url trips3)(zones_url \<mapsto> zones2)" and url = trips_url
         and f = trips3 and n = 2 and con = empty_engine
         and cells = "map (parse_line 5) (lines trips3)"
         and target_table = "''yellow_taxi_data''" and df = zones_frame
         and w' = "(serving trips_url trips3)(zones_url \<mapsto> zones2)"
         and zcon = empty_engine and zones_table = "''zones''"]
  have a: "\<exists>con1 con2.
       ingest_data ((serving trips_url trips3)(zones_url \<mapsto> zones2)) trips_url empty_engine
         ''yellow_taxi_data'' 2 = Some (None, con1)
     \<and> ingest_data ((serving trips_url trips3)(zones_url \<mapsto> zones2)) trips_url con1
         ''yellow_taxi_data'' 2 = Some (None, con2)
     \<and> tables con2 = tables con1
     \<and> stored_rows con2 ''yellow_taxi_data'' = stored_rows con1 ''yellow_taxi_data''
     \<and> length (stored_rows con2 ''yellow_taxi_data'') = 3
     \<and> statements_since con1 con2 =
         [DropTable ''yellow_taxi_data'',
          CreateTable ''yellow_taxi_data'' (''index'' # trip_columns),
          InsertRows ''yellow_taxi_data'' 2,
          InsertRows ''yellow_taxi_data'' 1]"
    using inst [THEN conjunct1, THEN mp, OF hyp1]
    by (simp add: trips3_facts(1,2,8) cs numeral_3_eq_3)
  have b: "\<exists>z1 z2.
       run ((serving trips_url trips3)(zones_url \<mapsto> zones2)) empty_engine ''zones'' = (None, z1)
     \<and> run ((serving trips_url trips3)(zones_url \<mapsto> zones2)) z1 ''zones'' = (None, z2)
     \<and> tables z2 = tables z1
     \<and> stored_rows z2 ''zones'' = stored_rows z1 ''zones''
     \<and> length (stored_rows z2 ''zones'') = 2
     \<and> statements_since z1 z2 =
         [DropTable ''zones'',
          CreateTable ''zones'' [''index'', ''LocationID'', ''Borough'', ''Zone'', ''service_zone''],
          InsertRows ''zones'' 2]"
    using inst [THEN conjunct2, THEN mp, OF hyp2]
    by (simp add: zones_frame_facts(2,3,4))
  from a b show ?thesis by (rule conjI)
qed




text \<open>
  Claim C9, as amended. A source with a header and no data line does not exhaust the
  iterator at once: the first \<^verbatim>\<open>next\<close> returns an empty frame with the header's
  columns. The run completes; a table that existed under the target name is dropped, and
  an empty table with the index column and the header's columns is created.
\<close>

theorem header_only_source_recreates_table:
  assumes "1 \<le> n" and "w url = Some f"
    and "header f \<noteq> []" and "set PARSE_DATES \<subseteq> set (header f)"
    and "index_label (header f) \<notin> set (header f)"
    and "lines f = []"
  shows "first_batch_columns w url n = Some (header f)
    \<and> (\<exists>con'. ingest_data w url con target_table n = Some (None, con')
          \<and> tables con' target_table =
              Some \<lparr>tcolumns = index_label (header f) # header f, trows = []\<rparr>
          \<and> statements_since con con' =
              (case tables con target_table of None \<Rightarrow> [] | Some tb \<Rightarrow> [DropTable target_table])
                @ [CreateTable target_table (index_label (header f) # header f)])"
proof -
  have k: "leading_cols f = 0"
    using assms(6) by (simp add: leading_cols_def)
  have ok: "lines_ok DTYPE (header f) 0 (lines f)"
    using assms(6) by (simp add: lines_ok_def)
  have ok': "lines_ok DTYPE (header f) (leading_cols f) (take (nat n) (lines f))"
    using assms(6) by (simp add: lines_ok_def)
  have first: "first_batch_columns w url n = Some (header f)"
    by (rule first_batch_columns_ok) (rule assms ok')+
  have run: "ingest_data w url con target_table n =
    Some (None, loaded target_table (header f) (map (parse_line (length (header f))) (lines f))
                  (chunk_sizes (nat n) (length (lines f))) con)"
    by (rule ingest_data_loaded) (rule assms k ok)+
  show ?thesis
    unfolding run using first assms(6)
    by (simp add: statements_since_loaded tables_loaded_same numbered_Nil chunk_sizes_0)
qed

theorem header_only_source_witness:
  "first_batch_columns (serving trips_url trips_header_only) trips_url 100000 = Some trip_columns
   \<and> (\<exists>con'. ingest_data (serving trips_url trips_header_only) trips_url old_engine
                 ''yellow_taxi_data'' 100000 = Some (None, con')
        \<and> tables con' ''yellow_taxi_data'' = Some \<lparr>tcolumns = ''index'' # trip_columns, trows = []\<rparr>
        \<and> statements_since old_engine con' =
            [DropTable ''yellow_taxi_data'',
             CreateTable ''yellow_taxi_data'' (''index'' # trip_columns)])"
proof -
  have 1: "(1::int) \<le> 100000" by simp
  show ?thesis
    using header_only_source_recreates_table
      [where w = "serving trips_url trips_header_only" and url = trips_url
         and f = trips_header_only and n = 100000 and con = old_engine
         and target_table = "''yellow_taxi_data''",
       OF 1 serving_same header_only_facts(3-5) header_only_facts(2)]
    by (simp add: header_only_facts(1) trip_columns_facts(3) old_engine_table)
qed

text \<open>
  The claim as stated fails: the run on a header-only source does not abort, and the
  table that was there, with its row, is replaced by an empty one.
\<close>

theorem header_only_source_counterexample:
  "ingest_data (serving trips_url trips_header_only) trips_url old_engine ''yellow_taxi_data'' 100000 =
     Some (None, loaded ''yellow_taxi_data'' trip_columns [] [] old_engine)
   \<and> stored_rows old_engine ''yellow_taxi_data'' = [[Pos 0, Lit ''9.50'']]
   \<and> stored_columns old_engine ''yellow_taxi_data'' = Some [''index'', ''fare'']
   \<and> stored_rows (loaded ''yellow_taxi_data'' trip_columns [] [] old_engine) ''yellow_taxi_data'' = []
   \<and> stored_columns (loaded ''yellow_taxi_data'' trip_columns [] [] old_engine) ''yellow_taxi_data'' =
       Some (''index'' # trip_columns)
   \<and> statements_since old_engine (loaded ''yellow_taxi_data'' trip_columns [] [] old_engine) =
       [DropTable ''yellow_taxi_data'', CreateTable ''yellow_taxi_data'' (''index'' # trip_columns)]"
  by (simp add: header_only_run stored_rows_loaded stored_columns_loaded statements_since_loaded
      numbered_Nil trip_columns_facts(3) old_engine_table old_engine_stored)







end
